theory Spec2Isabelle
  imports Main "HOL-Library.Sublist"
begin

section \<open>JavaScript values\<close>

text \<open>
  The bot is a single Node.js file, \<^verbatim>\<open>src/index.js\<close> (the second file of the repository is
  the same program with Italian message texts). Its data are JavaScript values: what
  \<^verbatim>\<open>JSON.parse\<close> delivers for the analytics response, plus \<^verbatim>\<open>undefined\<close> for a property
  that is not there.

  A string is the list of the bytes of its UTF-8 text, so a non-ASCII character of a message
  (an emoji) is several \<^typ>\<open>char\<close>s. The three characters \<^verbatim>\<open>escapeHtml\<close> looks for are ASCII and
  never occur inside a multi-byte sequence, so replacing them byte by byte is replacing them
  character by character.

  A finite number \<open>Fin m e\<close> stands for the double whose shortest decimal that reads back as
  the same double is \<open>m * 10 ^ e\<close> (every finite double has one; for a number read from JSON
  text with at most 15 significant digits it is that text's value). Negative zero is not
  told apart from zero: the program only prints numbers and tests them for truth, and both
  zeros print and test alike.
\<close>

datatype jsnum = Fin int int | PosInf | NegInf | NaN

datatype jsval =
    JUndefined
  | JNull
  | JBool bool
  | JNum jsnum
  | JStr string
  | JArr "jsval list"
  | JObj "(string \<times> jsval) list"

datatype error = TypeError | FetchError | SendError | IOError

subsection \<open>Numbers to text\<close>

definition digit_char :: "nat \<Rightarrow> char" where
  "digit_char d = ''0123456789'' ! d"

fun digits :: "nat \<Rightarrow> string" where
  "digits n = (if n < 10 then [digit_char n] else digits (n div 10) @ [digit_char (n mod 10)])"

declare digits.simps [simp del]

definition strip_zeros :: "string \<Rightarrow> string" where
  "strip_zeros ds = rev (dropWhile (\<lambda>c. c = CHR ''0'') (rev ds))"

text \<open>
  \<^verbatim>\<open>String(x)\<close> for a number, ECMAScript's \<^verbatim>\<open>Number::toString\<close> in radix 10: with \<open>k\<close> the
  number of digits of the shortest decimal and \<open>n\<close> the position of its decimal point,
  plain notation for \<open>-6 < n \<le> 21\<close> and exponent notation outside.
\<close>

definition Number_toString :: "jsnum \<Rightarrow> string" where
  "Number_toString x =
     (case x of
        NaN \<Rightarrow> ''NaN''
      | PosInf \<Rightarrow> ''Infinity''
      | NegInf \<Rightarrow> ''-Infinity''
      | Fin m e \<Rightarrow>
          if m = 0 then ''0''
          else
            let all = digits (nat \<bar>m\<bar>);
                ds = strip_zeros all;
                k = int (length ds);
                n = e + int (length all)
            in (if m < 0 then ''-'' else '''') @
               (if k \<le> n \<and> n \<le> 21 then ds @ replicate (nat (n - k)) (CHR ''0'')
                else if 0 < n \<and> n \<le> 21 then take (nat n) ds @ ''.'' @ drop (nat n) ds
                else if - 6 < n \<and> n \<le> 0 then ''0.'' @ replicate (nat (- n)) (CHR ''0'') @ ds
                else
                  let ex = n - 1;
                      es = (if ex < 0 then ''-'' else ''+'') @ digits (nat \<bar>ex\<bar>)
                  in if k = 1 then ds @ ''e'' @ es
                     else take 1 ds @ ''.'' @ drop 1 ds @ ''e'' @ es))"

text \<open>
  \<^verbatim>\<open>x.toFixed(1)\<close> rounds the exact binary value of the double, so the double nearest to the
  decimal is computed first: \<open>nearest_double a b\<close> is the pair \<open>(mant, p)\<close> with
  \<open>mant * 2 ^ p\<close> the double nearest to \<open>a / b\<close> (53 bits, ties to even, gradual underflow
  below \<open>2 ^ - 1022\<close>). Overflow plays no role: \<^verbatim>\<open>toFixed\<close> hands every number from
  \<open>10 ^ 21\<close> on to \<^verbatim>\<open>String\<close>.
\<close>

fun bit_length :: "nat \<Rightarrow> nat" where
  "bit_length n = (if n = 0 then 0 else Suc (bit_length (n div 2)))"

declare bit_length.simps [simp del]

definition floor_log2 :: "nat \<Rightarrow> nat \<Rightarrow> int" where
  "floor_log2 a b =
     (let d = int (bit_length a) - int (bit_length b)
      in if b * 2 ^ nat d \<le> a * 2 ^ nat (- d) then d else d - 1)"

definition round_half_even :: "nat \<Rightarrow> nat \<Rightarrow> nat" where
  "round_half_even a b =
     (let q = a div b; r = a mod b
      in if 2 * r < b then q
         else if b < 2 * r then q + 1
         else if even q then q else q + 1)"

definition nearest_double :: "nat \<Rightarrow> nat \<Rightarrow> nat \<times> int" where
  "nearest_double a b =
     (let p = max (floor_log2 a b) (- 1022) - 52
      in (round_half_even (a * 2 ^ nat (- p)) (b * 2 ^ nat p), p))"

definition tenths :: "nat \<Rightarrow> int \<Rightarrow> nat" where
  "tenths m e =
     (let (mant, p) = nearest_double (m * 10 ^ nat e) (10 ^ nat (- e))
      in if 0 \<le> p then 10 * mant * 2 ^ nat p
         else (20 * mant + 2 ^ nat (- p)) div 2 ^ nat (1 - p))"

definition Number_toFixed1 :: "jsnum \<Rightarrow> string" where
  "Number_toFixed1 x =
     (case x of
        NaN \<Rightarrow> ''NaN''
      | PosInf \<Rightarrow> ''Infinity''
      | NegInf \<Rightarrow> ''-Infinity''
      | Fin m e \<Rightarrow>
          if m = 0 then ''0.0''
          else if 10 ^ 21 * 10 ^ nat (- e) \<le> \<bar>m\<bar> * 10 ^ nat e then Number_toString x
          else
            let ds = digits (tenths (nat \<bar>m\<bar>) e);
                ds' = (if length ds \<le> 1 then ''0'' @ ds else ds)
            in (if m < 0 then ''-'' else '''') @ butlast ds' @ ''.'' @ [last ds'])"

subsection \<open>Conversions and operators\<close>

fun join_comma :: "string list \<Rightarrow> string" where
  "join_comma [] = []"
| "join_comma [s] = s"
| "join_comma (s # t # ss) = s @ '','' @ join_comma (t # ss)"

definition err_bind :: "error + 'a \<Rightarrow> ('a \<Rightarrow> error + 'b) \<Rightarrow> error + 'b" where
  "err_bind r f = (case r of Inl e \<Rightarrow> Inl e | Inr v \<Rightarrow> f v)"

text \<open>The results of a list of computations, from left to right, up to the first that throws.\<close>

fun collect :: "(error + 'a) list \<Rightarrow> error + 'a list" where
  "collect [] = Inr []"
| "collect (r # rs) = err_bind r (\<lambda>x. err_bind (collect rs) (\<lambda>xs. Inr (x # xs)))"

text \<open>
  \<^verbatim>\<open>String(v)\<close>, which a template literal applies as well. An array prints its elements
  separated by commas, a \<^verbatim>\<open>null\<close> among them as nothing. A plain object prints its tag through
  the \<^verbatim>\<open>toString\<close> it inherits; an object with an own property \<^verbatim>\<open>toString\<close> (read from JSON,
  its value is never a function) has no method left that gives a primitive value, and the
  conversion throws a \<^verbatim>\<open>TypeError\<close>.
\<close>

fun js_String :: "jsval \<Rightarrow> error + string" where
  "js_String JUndefined = Inr ''undefined''"
| "js_String JNull = Inr ''null''"
| "js_String (JBool b) = Inr (if b then ''true'' else ''false'')"
| "js_String (JNum x) = Inr (Number_toString x)"
| "js_String (JStr s) = Inr s"
| "js_String (JArr vs) =
     err_bind
       (collect (map (\<lambda>v. if v = JNull \<or> v = JUndefined then Inr [] else js_String v) vs))
       (\<lambda>texts. Inr (join_comma texts))"
| "js_String (JObj kvs) =
     (if map_of kvs ''toString'' \<noteq> None then Inl TypeError else Inr ''[object Object]'')"

fun truthy :: "jsval \<Rightarrow> bool" where
  "truthy JUndefined = False"
| "truthy JNull = False"
| "truthy (JBool b) = b"
| "truthy (JNum x) = (case x of Fin m e \<Rightarrow> m \<noteq> 0 | NaN \<Rightarrow> False | _ \<Rightarrow> True)"
| "truthy (JStr s) = (s \<noteq> [])"
| "truthy (JArr vs) = True"
| "truthy (JObj kvs) = True"

definition nullish :: "jsval \<Rightarrow> bool" where
  "nullish v = (v = JNull \<or> v = JUndefined)"

section \<open>escapeHtml\<close>

text \<open>\<^verbatim>\<open>s.replace(/c/g, r)\<close> for a one-character pattern.\<close>

definition replace_all :: "char \<Rightarrow> string \<Rightarrow> string \<Rightarrow> string" where
  "replace_all c r s = concat (map (\<lambda>x. if x = c then r else [x]) s)"

text \<open>The chain of the three \<^verbatim>\<open>replace\<close> calls, on the string \<^verbatim>\<open>String(text)\<close>.\<close>

definition escape_text :: "string \<Rightarrow> string" where
  "escape_text s =
     replace_all (CHR ''>'') ''&gt;''
       (replace_all (CHR ''<'') ''&lt;'' (replace_all (CHR ''&'') ''&amp;'' s))"

definition escapeHtml :: "jsval \<Rightarrow> error + string" where
  "escapeHtml text =
     (if text = JNull \<or> text = JUndefined then Inr []
      else err_bind (js_String text) (\<lambda>s. Inr (escape_text s)))"

text \<open>What the specification asks of the escape: every character is translated once.\<close>

definition escape_once :: "char \<Rightarrow> string" where
  "escape_once c =
     (if c = CHR ''&'' then ''&amp;''
      else if c = CHR ''<'' then ''&lt;''
      else if c = CHR ''>'' then ''&gt;''
      else [c])"

section \<open>formatReportMessage\<close>

text \<open>
  Property access. An object is the list of its own properties (keys distinct, as
  \<^verbatim>\<open>JSON.parse\<close> leaves them); reading a property of \<^verbatim>\<open>null\<close> or \<^verbatim>\<open>undefined\<close> throws a
  \<^verbatim>\<open>TypeError\<close>; reading one of a string, number, boolean or array gives \<^verbatim>\<open>undefined\<close> for
  every name the program asks for, with the one exception of \<^verbatim>\<open>toFixed\<close> on a number, which
  \<open>toFixed_or_self\<close> below takes care of.
\<close>

definition lookup :: "(string \<times> jsval) list \<Rightarrow> string \<Rightarrow> jsval" where
  "lookup kvs k = (case map_of kvs k of None \<Rightarrow> JUndefined | Some v \<Rightarrow> v)"

definition get_prop :: "jsval \<Rightarrow> string \<Rightarrow> error + jsval" where
  "get_prop v k =
     (case v of
        JUndefined \<Rightarrow> Inl TypeError
      | JNull \<Rightarrow> Inl TypeError
      | JObj kvs \<Rightarrow> Inr (lookup kvs k)
      | _ \<Rightarrow> Inr JUndefined)"

text \<open>\<^verbatim>\<open>v?.k\<close>, \<^verbatim>\<open>a ?? b\<close> and \<^verbatim>\<open>a || b\<close>.\<close>

definition opt_prop :: "jsval \<Rightarrow> string \<Rightarrow> jsval" where
  "opt_prop v k = (case v of JObj kvs \<Rightarrow> lookup kvs k | _ \<Rightarrow> JUndefined)"

definition coalesce :: "jsval \<Rightarrow> jsval \<Rightarrow> jsval" where
  "coalesce a b = (if nullish a then b else a)"

definition js_or :: "jsval \<Rightarrow> jsval \<Rightarrow> jsval" where
  "js_or a b = (if truthy a then a else b)"

text \<open>
  \<^verbatim>\<open>v.toFixed ? v.toFixed(1) : v\<close>. A number has the method; an object read from JSON can
  carry an own property of that name, which is never a function, so calling it throws.
\<close>

definition toFixed_or_self :: "jsval \<Rightarrow> error + jsval" where
  "toFixed_or_self v =
     (case v of
        JUndefined \<Rightarrow> Inl TypeError
      | JNull \<Rightarrow> Inl TypeError
      | JNum x \<Rightarrow> Inr (JStr (Number_toFixed1 x))
      | JObj kvs \<Rightarrow> if truthy (lookup kvs ''toFixed'') then Inl TypeError else Inr v
      | _ \<Rightarrow> Inr v)"

subsection \<open>The texts of the report\<close>

definition nl :: string where "nl = [CHR 0x0A]"

definition chart_emoji :: string where "chart_emoji = [CHR 0xF0, CHR 0x9F, CHR 0x93, CHR 0x8A]"
definition bust_emoji :: string where "bust_emoji = [CHR 0xF0, CHR 0x9F, CHR 0x91, CHR 0xA4]"
definition busts_emoji :: string where "busts_emoji = [CHR 0xF0, CHR 0x9F, CHR 0x91, CHR 0xA5]"
definition fire_emoji :: string where "fire_emoji = [CHR 0xF0, CHR 0x9F, CHR 0x94, CHR 0xA5]"
definition clapper_emoji :: string where "clapper_emoji = [CHR 0xF0, CHR 0x9F, CHR 0x8E, CHR 0xAC]"
definition eye_emoji :: string where
  "eye_emoji = [CHR 0xF0, CHR 0x9F, CHR 0x91, CHR 0x81, CHR 0xEF, CHR 0xB8, CHR 0x8F,
                CHR 0xE2, CHR 0x80, CHR 0x8D, CHR 0xF0, CHR 0x9F, CHR 0x97, CHR 0xA8,
                CHR 0xEF, CHR 0xB8, CHR 0x8F]"
definition trend_emoji :: string where "trend_emoji = [CHR 0xF0, CHR 0x9F, CHR 0x93, CHR 0x88]"
definition heart_emoji :: string where
  "heart_emoji = [CHR 0xE2, CHR 0x9D, CHR 0xA4, CHR 0xEF, CHR 0xB8, CHR 0x8F]"
definition trophy_emoji :: string where "trophy_emoji = [CHR 0xF0, CHR 0x9F, CHR 0x8F, CHR 0x86]"

definition zero :: jsval where "zero = JNum (Fin 0 0)"

subsection \<open>The function\<close>

text \<open>The message up to the line of the average likes: lines 102 to 128 of the source.\<close>

definition report_head :: "jsval \<Rightarrow> error + string" where
  "report_head data =
     err_bind (get_prop data ''profile_name'') (\<lambda>profile_name.
     err_bind (get_prop data ''profile_id'') (\<lambda>profile_id.
     err_bind (if truthy profile_id
               then err_bind (js_String profile_id) (\<lambda>s. Inr (JStr (''@'' @ s)))
               else Inr (JStr [])) (\<lambda>handle.
     err_bind (get_prop data ''profile_followers'') (\<lambda>profile_followers.
     err_bind (get_prop data ''engagement_rate'') (\<lambda>engagement_rate.
     err_bind (get_prop data ''video_views'') (\<lambda>video_views.
     err_bind (get_prop data ''average_video_views_per_post'') (\<lambda>average_views.
     err_bind (get_prop data ''likes'') (\<lambda>likes.
     err_bind (get_prop data ''posts'') (\<lambda>posts_field.
       let profileName = js_or (js_or profile_name profile_id) (JStr ''Profile'');
           followers = coalesce (opt_prop profile_followers ''value'') zero;
           er = coalesce (opt_prop engagement_rate ''float_2f'') zero;
           totalViews = coalesce (coalesce (opt_prop video_views ''abbr_string_1f'')
                                           (opt_prop video_views ''value'')) zero;
           avgViews = coalesce (opt_prop average_views ''float_1f'') zero;
           avgLikes = coalesce (opt_prop likes ''float_1f'') zero;
           posts = coalesce posts_field zero
       in
         err_bind (escapeHtml profileName) (\<lambda>profileNameEsc.
         err_bind (escapeHtml handle) (\<lambda>handleEsc.
         err_bind (escapeHtml totalViews) (\<lambda>totalViewsEsc.
         err_bind (escapeHtml followers) (\<lambda>followersEsc.
         err_bind (escapeHtml er) (\<lambda>erEsc.
         err_bind (escapeHtml posts) (\<lambda>postsEsc.
         err_bind (err_bind (toFixed_or_self avgViews) escapeHtml) (\<lambda>avgViewsEsc.
         err_bind (err_bind (toFixed_or_self avgLikes) escapeHtml) (\<lambda>avgLikesEsc.
           Inr (chart_emoji @ '' <b>TikTok Report</b>'' @ nl
                @ bust_emoji @ '' Profile: <b>'' @ profileNameEsc @ ''</b> '' @ handleEsc
                  @ nl @ nl
                @ busts_emoji @ '' Followers: <b>'' @ followersEsc @ ''</b>'' @ nl
                @ fire_emoji @ '' Engagement rate: <b>'' @ erEsc @ ''%</b>'' @ nl
                @ clapper_emoji @ '' Posts analyzed: <b>'' @ postsEsc @ ''</b>'' @ nl @ nl
                @ eye_emoji @ '' Total views: <b>'' @ totalViewsEsc @ ''</b>'' @ nl
                @ trend_emoji @ '' Avg views/video: <b>'' @ avgViewsEsc @ ''</b>'' @ nl
                @ heart_emoji @ '' Avg likes/video: <b>'' @ avgLikesEsc @ ''</b>''
                  @ nl))))))))))))))))))"

text \<open>The body of the \<^verbatim>\<open>forEach\<close> callback: the text it appends for post \<open>p\<close> at index \<open>idx\<close>.\<close>

definition video_entry :: "nat \<Rightarrow> jsval \<Rightarrow> error + string" where
  "video_entry idx p =
     err_bind (get_prop p ''like_count'') (\<lambda>like_count.
     err_bind (get_prop p ''diggCount'') (\<lambda>diggCount.
     err_bind (escapeHtml (coalesce (coalesce like_count diggCount) zero)) (\<lambda>likesEsc.
     err_bind (get_prop p ''si_permalink'') (\<lambda>si_permalink.
     err_bind (get_prop p ''permalink'') (\<lambda>permalink.
     err_bind (get_prop p ''si_picture'') (\<lambda>si_picture.
       let link = js_or (js_or (js_or si_permalink permalink) si_picture) (JStr [])
       in err_bind (escapeHtml link) (\<lambda>linkEsc.
            Inr (digits (idx + 1) @ '') '' @ heart_emoji @ '' '' @ likesEsc @ '' likes'' @ nl
                 @ (if truthy link then linkEsc @ nl else [])))))))))"

text \<open>\<^verbatim>\<open>top.forEach((p, idx) => { msg += ... })\<close>, the message threaded through.\<close>

fun forEach_top :: "nat \<Rightarrow> jsval list \<Rightarrow> string \<Rightarrow> error + string" where
  "forEach_top idx [] msg = Inr msg"
| "forEach_top idx (p # ps) msg =
     err_bind (video_entry idx p) (\<lambda>lines. forEach_top (Suc idx) ps (msg @ lines))"

definition formatReportMessage :: "jsval \<Rightarrow> error + string" where
  "formatReportMessage data =
     err_bind (report_head data) (\<lambda>msg.
     err_bind (get_prop data ''top_posts'') (\<lambda>top_posts.
       case top_posts of
         JArr posts \<Rightarrow>
           if 0 < length posts
           then forEach_top 0 (take 3 posts)
                  (msg @ nl @ trophy_emoji @ '' <b>Top Videos</b>'' @ nl)
           else Inr msg
       | _ \<Rightarrow> Inr msg))"

subsection \<open>The top videos as the specification words them\<close>

text \<open>
  A field of a post is present when it is neither \<^verbatim>\<open>null\<close> nor missing. The like count is
  the first present one of \<^verbatim>\<open>like_count\<close> and \<^verbatim>\<open>diggCount\<close>, else 0; the link is the first
  of \<^verbatim>\<open>si_permalink\<close>, \<^verbatim>\<open>permalink\<close> and \<^verbatim>\<open>si_picture\<close> that holds something (a value that
  counts as true), else the empty string. The video numbered \<open>i\<close> is rendered as one line with
  its like count, followed by a line with the link when there is one.

  A value has a text when \<^verbatim>\<open>String\<close> can print it: it is not an object with a property
  \<^verbatim>\<open>toString\<close> of its own and holds none in its arrays. A post can be rendered when it is a
  record (not \<^verbatim>\<open>null\<close>) whose like count and link have a text.
\<close>

fun has_text :: "jsval \<Rightarrow> bool" where
  "has_text (JArr vs) = list_all has_text vs"
| "has_text (JObj kvs) = (map_of kvs ''toString'' = None)"
| "has_text v = True"

definition escaped :: "jsval \<Rightarrow> string" where
  "escaped v = (case escapeHtml v of Inr s \<Rightarrow> s | Inl e \<Rightarrow> [])"

definition present :: "jsval \<Rightarrow> bool" where
  "present v = (v \<noteq> JNull \<and> v \<noteq> JUndefined)"

definition spec_like_count :: "jsval \<Rightarrow> jsval" where
  "spec_like_count p =
     (if present (opt_prop p ''like_count'') then opt_prop p ''like_count''
      else if present (opt_prop p ''diggCount'') then opt_prop p ''diggCount''
      else JNum (Fin 0 0))"

definition spec_link :: "jsval \<Rightarrow> jsval" where
  "spec_link p =
     (if truthy (opt_prop p ''si_permalink'') then opt_prop p ''si_permalink''
      else if truthy (opt_prop p ''permalink'') then opt_prop p ''permalink''
      else if truthy (opt_prop p ''si_picture'') then opt_prop p ''si_picture''
      else JStr [])"

definition spec_video :: "nat \<times> jsval \<Rightarrow> string" where
  "spec_video ip =
     digits (fst ip) @ '') '' @ heart_emoji @ '' '' @ escaped (spec_like_count (snd ip))
       @ '' likes'' @ nl
     @ (if truthy (spec_link (snd ip)) then escaped (spec_link (snd ip)) @ nl else [])"

definition post_renders :: "jsval \<Rightarrow> bool" where
  "post_renders p = (present p \<and> has_text (spec_like_count p) \<and> has_text (spec_link p))"

definition spec_top_videos :: "jsval list \<Rightarrow> string" where
  "spec_top_videos posts = concat (map spec_video (enumerate 1 (take 3 posts)))"

text \<open>An analytics object with five posts, for the example of the specification.\<close>

definition five_posts :: "jsval list" where
  "five_posts =
     [JObj [(''like_count'', JNum (Fin 50 0)), (''si_permalink'', JStr ''https://t.example/a?x=1&y=2'')],
      JObj [(''diggCount'', JNum (Fin 40 0)), (''permalink'', JStr ''https://t.example/b'')],
      JObj [(''like_count'', JNull), (''si_picture'', JStr ''https://t.example/c.jpg'')],
      JObj [(''like_count'', JNum (Fin 20 0))],
      JNull]"

text \<open>An analytics object with one post, whose like count cannot be printed.\<close>

definition odd_likes_analytics :: jsval where
  "odd_likes_analytics =
     JObj [(''profile_id'', JStr ''foo''),
           (''top_posts'', JArr [JObj [(''like_count'', JObj [(''toString'', JNum (Fin 1 0))])]])]"

definition five_posts_analytics :: jsval where
  "five_posts_analytics = JObj [(''profile_id'', JStr ''foo''), (''top_posts'', JArr five_posts)]"

definition five_posts_head :: string where
  "five_posts_head =
     chart_emoji @ '' <b>TikTok Report</b>'' @ nl
     @ bust_emoji @ '' Profile: <b>foo</b> @foo'' @ nl @ nl
     @ busts_emoji @ '' Followers: <b>0</b>'' @ nl
     @ fire_emoji @ '' Engagement rate: <b>0%</b>'' @ nl
     @ clapper_emoji @ '' Posts analyzed: <b>0</b>'' @ nl @ nl
     @ eye_emoji @ '' Total views: <b>0</b>'' @ nl
     @ trend_emoji @ '' Avg views/video: <b>0.0</b>'' @ nl
     @ heart_emoji @ '' Avg likes/video: <b>0.0</b>'' @ nl"

text \<open>The analytics object of the specification's example.\<close>

definition example_analytics :: jsval where
  "example_analytics =
     JObj [(''profile_id'', JStr ''foo''),
           (''profile_followers'', JObj [(''value'', JNum (Fin 100 0))]),
           (''engagement_rate'', JObj [(''float_2f'', JNum (Fin 25 (- 1)))]),
           (''posts'', JNum (Fin 5 0))]"

section \<open>The subscription store and the file\<close>

text \<open>
  \<^verbatim>\<open>subscriptions\<close> is an object that maps a chat id to \<^verbatim>\<open>{ tiktokHandle, lastSentAt }\<close>. It is
  modelled by the list of its own properties in the order \<^verbatim>\<open>Object.entries\<close> and
  \<^verbatim>\<open>JSON.stringify\<close> go through them: the keys that are array indices first, in ascending
  order, the other keys after them in the order they were created. The chat ids come from
  the capture \<^verbatim>\<open>(-?\d+)\<close> of a command or from \<^verbatim>\<open>String(msg.chat.id)\<close>, so no key is the name of
  a property an object inherits.
\<close>

record subscription =
  tiktokHandle :: string
  lastSentAt :: "string option"

type_synonym store = "(string \<times> subscription) list"

definition is_digit :: "char \<Rightarrow> bool" where
  "is_digit c = (48 \<le> (of_char c :: nat) \<and> (of_char c :: nat) \<le> 57)"

definition decimal_value :: "string \<Rightarrow> nat" where
  "decimal_value k = foldl (\<lambda>n c. 10 * n + (of_char c - 48)) 0 k"

text \<open>A key is an array index when it is the canonical decimal of a number below \<open>2^32 - 1\<close>.\<close>

definition array_index :: "string \<Rightarrow> nat option" where
  "array_index k =
     (if k \<noteq> [] \<and> list_all is_digit k \<and> (k = ''0'' \<or> hd k \<noteq> CHR ''0'')
         \<and> decimal_value k < 4294967295
      then Some (decimal_value k) else None)"

definition index_below :: "nat \<Rightarrow> string \<times> 'v \<Rightarrow> bool" where
  "index_below n kv = (case array_index (fst kv) of Some i \<Rightarrow> i < n | None \<Rightarrow> False)"

text \<open>\<^verbatim>\<open>obj[k] = v\<close>: an existing property keeps its place, a new one is put in order.\<close>

definition set_prop :: "string \<Rightarrow> 'v \<Rightarrow> (string \<times> 'v) list \<Rightarrow> (string \<times> 'v) list" where
  "set_prop k v kvs =
     (if map_of kvs k \<noteq> None then map (\<lambda>kv. if fst kv = k then (k, v) else kv) kvs
      else case array_index k of
             None \<Rightarrow> kvs @ [(k, v)]
           | Some n \<Rightarrow> takeWhile (index_below n) kvs @ [(k, v)] @ dropWhile (index_below n) kvs)"

text \<open>\<^verbatim>\<open>delete obj[k]\<close>.\<close>

definition delete_prop :: "string \<Rightarrow> (string \<times> 'v) list \<Rightarrow> (string \<times> 'v) list" where
  "delete_prop k kvs = filter (\<lambda>kv. fst kv \<noteq> k) kvs"

text \<open>
  The file \<^verbatim>\<open>./subscriptions.json\<close>. Its bytes are not modelled: the file is absent, or it
  holds the text \<^verbatim>\<open>JSON.stringify(subs, null, 2)\<close> of a mapping (which \<^verbatim>\<open>JSON.parse\<close> reads back
  as that mapping), or it is empty, or it holds a text that \<^verbatim>\<open>JSON.parse\<close> rejects. The program
  itself only ever writes the first kind. \<open>writable\<close> and \<open>readable\<close> say whether
  \<^verbatim>\<open>writeFileSync\<close> and \<^verbatim>\<open>readFileSync\<close> succeed; \<open>write_calls\<close> counts the calls of
  \<^verbatim>\<open>writeFileSync\<close>, so that a file left alone can be told from a file written again with the
  same text. Lines printed on the console are not modelled.
\<close>

datatype content = Stringified store | Blank | Malformed

record fs =
  subs_file :: "content option"
  writable :: bool
  readable :: bool
  write_calls :: nat

text \<open>\<^verbatim>\<open>fs.writeFileSync(SUBS_FILE, JSON.stringify(subs, null, 2))\<close> inside \<^verbatim>\<open>try\<close>.\<close>

definition writeFileSync :: "store \<Rightarrow> fs \<Rightarrow> (error + unit) \<times> fs" where
  "writeFileSync subs d =
     (if writable d
      then (Inr (), d\<lparr>subs_file := Some (Stringified subs), write_calls := Suc (write_calls d)\<rparr>)
      else (Inl IOError, d\<lparr>write_calls := Suc (write_calls d)\<rparr>))"

definition saveSubscriptions :: "store \<Rightarrow> fs \<Rightarrow> fs" where
  "saveSubscriptions subs d =
     (case writeFileSync subs d of
        (Inr u, d') \<Rightarrow> d'
      | (Inl err, d') \<Rightarrow> d')"

definition loadSubscriptions :: "fs \<Rightarrow> store \<times> fs" where
  "loadSubscriptions d =
     (case subs_file d of
        None \<Rightarrow>
          (case writeFileSync [] d of
             (Inr u, d') \<Rightarrow> ([], d')
           | (Inl err, d') \<Rightarrow> ([], d'))
      | Some c \<Rightarrow>
          if \<not> readable d then ([], d)
          else (case c of
                  Stringified subs \<Rightarrow> (subs, d)
                | Blank \<Rightarrow> ([], d)
                | Malformed \<Rightarrow> ([], d)))"

section \<open>The bot\<close>

text \<open>
  The state of the process: the mapping in memory, the file, the calls of
  \<^verbatim>\<open>bot.sendMessage\<close> made so far (chat, text, options) and the handles posted to the
  analytics endpoint so far.
\<close>

datatype chat = ChatNum int | ChatStr string

datatype send_opts = NoOptions | ParseHtml | ParseHtmlPreview

type_synonym outgoing = "chat \<times> string \<times> send_opts"

record world =
  subscriptions :: store
  disk :: fs
  outbox :: "outgoing list"
  requests :: "string list"

record config =
  BOT_ADMIN_ID :: "string option"

text \<open>
  An incoming message that matched the regular expression of a handler, with the groups the
  expression captured: the link \<^verbatim>\<open>(\S+)\<close> and the optional chat id \<^verbatim>\<open>(-?\d+)\<close> of \<^verbatim>\<open>/add\<close>, the
  chat id of \<^verbatim>\<open>/rem\<close>. Of the message itself the handlers read \<^verbatim>\<open>msg.from.id\<close> and
  \<^verbatim>\<open>msg.chat.id\<close>, two integers. A reply is a call of \<^verbatim>\<open>bot.sendMessage\<close> whose promise the
  handler drops.
\<close>

record message =
  from_id :: int
  chat_id :: int

datatype update =
    Start message
  | Add message string "string option"
  | Rem message string
  | List message

definition int_String :: "int \<Rightarrow> string" where
  "int_String n = Number_toString (Fin n 0)"

definition isAdmin :: "config \<Rightarrow> message \<Rightarrow> bool" where
  "isAdmin cfg msg =
     (case BOT_ADMIN_ID cfg of
        None \<Rightarrow> True
      | Some admin \<Rightarrow> if admin = [] then True else int_String (from_id msg) = admin)"

definition sendMessage :: "chat \<Rightarrow> string \<Rightarrow> send_opts \<Rightarrow> world \<Rightarrow> world" where
  "sendMessage c body opts w = w\<lparr>outbox := outbox w @ [(c, body, opts)]\<rparr>"

subsection \<open>The texts of the replies\<close>

text \<open>
  The handlers call \<^verbatim>\<open>escapeHtml\<close> on strings only (a chat id, a link, a time), for which
  \<^verbatim>\<open>String(text)\<close> is the string itself: the call is \<open>escape_text\<close> of the string.
\<close>

definition warning_emoji :: string where
  "warning_emoji = [CHR 0xE2, CHR 0x9A, CHR 0xA0, CHR 0xEF, CHR 0xB8, CHR 0x8F]"
definition check_emoji :: string where "check_emoji = [CHR 0xE2, CHR 0x9C, CHR 0x85]"
definition bin_emoji :: string where
  "bin_emoji = [CHR 0xF0, CHR 0x9F, CHR 0x97, CHR 0x91, CHR 0xEF, CHR 0xB8, CHR 0x8F]"
definition question_emoji :: string where "question_emoji = [CHR 0xE2, CHR 0x9D, CHR 0x93]"
definition mailbox_emoji :: string where "mailbox_emoji = [CHR 0xF0, CHR 0x9F, CHR 0x93, CHR 0xAD]"
definition clipboard_emoji :: string where
  "clipboard_emoji = [CHR 0xF0, CHR 0x9F, CHR 0x93, CHR 0x8B]"
definition bullet :: string where "bullet = [CHR 0xE2, CHR 0x80, CHR 0xA2]"

definition fallback_text :: string where
  "fallback_text =
     warning_emoji @ '' Error fetching TikTok data. I will try again on the next cycle.''"

definition help_text :: string where
  "help_text =
     ''Hello! I am the TikTok report bot.'' @ nl
     @ ''Available commands (admin only):'' @ nl
     @ ''/add &lt;tiktok_link&gt; &lt;chat_id&gt;'' @ nl
     @ ''/rem &lt;chat_id&gt;'' @ nl
     @ ''/list''"

definition added_text :: "string \<Rightarrow> string \<Rightarrow> string" where
  "added_text chatId link =
     check_emoji @ '' Added report for chat <b>'' @ escape_text chatId
     @ ''</b> on profile:'' @ nl @ escape_text link"

definition removed_text :: "string \<Rightarrow> string" where
  "removed_text chatId =
     bin_emoji @ '' Removed chat <b>'' @ escape_text chatId @ ''</b> from reports.''"

definition not_found_text :: "string \<Rightarrow> string" where
  "not_found_text chatId =
     question_emoji @ '' Chat <b>'' @ escape_text chatId @ ''</b> not found.''"

definition empty_list_text :: string where
  "empty_list_text = mailbox_emoji @ '' No chat configured.''"

definition list_entry :: "string \<times> subscription \<Rightarrow> string" where
  "list_entry kv =
     bullet @ '' Chat ID: <b>'' @ escape_text (fst kv) @ ''</b>'' @ nl
     @ ''  TikTok: '' @ escape_text (tiktokHandle (snd kv)) @ nl
     @ ''  Last sent: ''
     @ (case lastSentAt (snd kv) of
          None \<Rightarrow> ''never''
        | Some t \<Rightarrow> if t = [] then ''never'' else escape_text t)
     @ nl @ nl"

subsection \<open>The command handlers\<close>

definition on_start :: "message \<Rightarrow> world \<Rightarrow> world" where
  "on_start msg w = sendMessage (ChatNum (chat_id msg)) help_text ParseHtml w"

definition chatIdToUse :: "message \<Rightarrow> string option \<Rightarrow> string" where
  "chatIdToUse msg match2 =
     (case match2 of
        None \<Rightarrow> int_String (chat_id msg)
      | Some c \<Rightarrow> if c = [] then int_String (chat_id msg) else c)"

definition on_add :: "config \<Rightarrow> message \<Rightarrow> string \<Rightarrow> string option \<Rightarrow> world \<Rightarrow> world" where
  "on_add cfg msg tiktokLink match2 w =
     (if \<not> isAdmin cfg msg then w
      else
        let chatId = chatIdToUse msg match2;
            subs = set_prop chatId \<lparr>tiktokHandle = tiktokLink, lastSentAt = None\<rparr>
                     (subscriptions w);
            w' = w\<lparr>subscriptions := subs, disk := saveSubscriptions subs (disk w)\<rparr>
        in sendMessage (ChatNum (chat_id msg)) (added_text chatId tiktokLink) ParseHtml w')"

definition on_rem :: "config \<Rightarrow> message \<Rightarrow> string \<Rightarrow> world \<Rightarrow> world" where
  "on_rem cfg msg chatIdToRemove w =
     (if \<not> isAdmin cfg msg then w
      else if map_of (subscriptions w) chatIdToRemove \<noteq> None
      then
        let subs = delete_prop chatIdToRemove (subscriptions w);
            w' = w\<lparr>subscriptions := subs, disk := saveSubscriptions subs (disk w)\<rparr>
        in sendMessage (ChatNum (chat_id msg)) (removed_text chatIdToRemove) ParseHtml w'
      else sendMessage (ChatNum (chat_id msg)) (not_found_text chatIdToRemove) ParseHtml w)"

definition on_list :: "config \<Rightarrow> message \<Rightarrow> world \<Rightarrow> world" where
  "on_list cfg msg w =
     (if \<not> isAdmin cfg msg then w
      else if length (subscriptions w) = 0
      then sendMessage (ChatNum (chat_id msg)) empty_list_text ParseHtml w
      else sendMessage (ChatNum (chat_id msg))
             (clipboard_emoji @ '' <b>Configured chats</b>'' @ nl @ nl
              @ concat (map list_entry (subscriptions w)))
             ParseHtml w)"

fun handle :: "config \<Rightarrow> update \<Rightarrow> world \<Rightarrow> world" where
  "handle cfg (Start msg) w = on_start msg w"
| "handle cfg (Add msg link match2) w = on_add cfg msg link match2 w"
| "handle cfg (Rem msg chatId) w = on_rem cfg msg chatId w"
| "handle cfg (List msg) w = on_list cfg msg w"

section \<open>The delivery cycle\<close>

text \<open>
  The cycle is an \<^verbatim>\<open>async\<close> function: at each \<^verbatim>\<open>await\<close> the event loop may run command
  handlers before the cycle goes on. What the outside world does during the processing of
  one entry is given by an \<open>entry_env\<close>: the result of the analytics request, whether the
  two sends succeed, the time \<^verbatim>\<open>new Date().toISOString()\<close> reads, and the updates handled
  while the cycle waits for the request, for each send and for the delay of 1.5 seconds.
\<close>

record entry_env =
  fetch_result :: "error + jsval"
  during_fetch :: "update list"
  send_ok :: bool
  during_send :: "update list"
  clock :: string
  fallback_ok :: bool
  during_fallback :: "update list"
  during_delay :: "update list"

definition deliver :: "config \<Rightarrow> update list \<Rightarrow> world \<Rightarrow> world" where
  "deliver cfg us w = foldl (\<lambda>w' u. handle cfg u w') w us"

text \<open>\<^verbatim>\<open>await fetchTikTokAnalytics(handle)\<close>: the request goes out, then the cycle waits.\<close>

definition fetchTikTokAnalytics ::
  "config \<Rightarrow> entry_env \<Rightarrow> string \<Rightarrow> world \<Rightarrow> (error + jsval) \<times> world" where
  "fetchTikTokAnalytics cfg e handleOrUrl w =
     (fetch_result e, deliver cfg (during_fetch e) (w\<lparr>requests := requests w @ [handleOrUrl]\<rparr>))"

text \<open>\<^verbatim>\<open>await bot.sendMessage(...)\<close>: the promise rejects when the send fails.\<close>

definition await_sendMessage ::
  "config \<Rightarrow> bool \<Rightarrow> update list \<Rightarrow> chat \<Rightarrow> string \<Rightarrow> send_opts \<Rightarrow> world
   \<Rightarrow> (error + unit) \<times> world" where
  "await_sendMessage cfg ok during c body opts w =
     (if ok then Inr () else Inl SendError, deliver cfg during (sendMessage c body opts w))"

text \<open>The \<^verbatim>\<open>try\<close> block of \<^verbatim>\<open>sendReportToChat\<close>, lines 153 to 160.\<close>

definition try_block ::
  "config \<Rightarrow> entry_env \<Rightarrow> string \<Rightarrow> string \<Rightarrow> world \<Rightarrow> (error + unit) \<times> world" where
  "try_block cfg e chatId handle_arg w =
     (case fetchTikTokAnalytics cfg e handle_arg w of
        (Inl err, w1) \<Rightarrow> (Inl err, w1)
      | (Inr data, w1) \<Rightarrow>
          (case formatReportMessage data of
             Inl err \<Rightarrow> (Inl err, w1)
           | Inr message \<Rightarrow>
               (case await_sendMessage cfg (send_ok e) (during_send e) (ChatStr chatId) message
                       ParseHtmlPreview w1 of
                  (Inl err, w2) \<Rightarrow> (Inl err, w2)
                | (Inr u, w2) \<Rightarrow>
                    (case map_of (subscriptions w2) chatId of
                       None \<Rightarrow> (Inl TypeError, w2)
                     | Some r \<Rightarrow>
                         let subs = set_prop chatId (r\<lparr>lastSentAt := Some (clock e)\<rparr>)
                                      (subscriptions w2)
                         in (Inr (),
                             w2\<lparr>subscriptions := subs,
                                disk := saveSubscriptions subs (disk w2)\<rparr>)))))"

text \<open>
  \<^verbatim>\<open>sendReportToChat\<close>: the \<^verbatim>\<open>catch\<close> block sends the fallback notice, and
  \<^verbatim>\<open>.catch(() => {})\<close> turns a rejection of that send into a normal return.
\<close>

definition sendReportToChat ::
  "config \<Rightarrow> entry_env \<Rightarrow> string \<Rightarrow> string \<Rightarrow> world \<Rightarrow> (error + unit) \<times> world" where
  "sendReportToChat cfg e chatId handle_arg w =
     (case try_block cfg e chatId handle_arg w of
        (Inr u, w') \<Rightarrow> (Inr (), w')
      | (Inl err, w') \<Rightarrow>
          (case await_sendMessage cfg (fallback_ok e) (during_fallback e) (ChatStr chatId)
                  fallback_text NoOptions w' of
             (Inr u, w'') \<Rightarrow> (Inr (), w'')
           | (Inl err', w'') \<Rightarrow> (Inr (), w'')))"

text \<open>
  The loop of \<^verbatim>\<open>runSchedulerCycle\<close> over the entries \<^verbatim>\<open>Object.entries(subscriptions)\<close> listed
  when the cycle started. The handle is read from the listed record: a record is never
  changed in its \<^verbatim>\<open>tiktokHandle\<close>, \<^verbatim>\<open>/add\<close> puts a new record in its place.
\<close>

fun cycle_loop ::
  "config \<Rightarrow> (string \<Rightarrow> entry_env) \<Rightarrow> (string \<times> subscription) list \<Rightarrow> world
   \<Rightarrow> (error + unit) \<times> world" where
  "cycle_loop cfg env [] w = (Inr (), w)"
| "cycle_loop cfg env ((chatId, info) # entries) w =
     (if tiktokHandle info = [] then cycle_loop cfg env entries w
      else
        case sendReportToChat cfg (env chatId) chatId (tiktokHandle info) w of
          (Inl err, w') \<Rightarrow> (Inl err, w')
        | (Inr u, w') \<Rightarrow>
            cycle_loop cfg env entries (deliver cfg (during_delay (env chatId)) w'))"

definition runSchedulerCycle ::
  "config \<Rightarrow> (string \<Rightarrow> entry_env) \<Rightarrow> world \<Rightarrow> (error + unit) \<times> world" where
  "runSchedulerCycle cfg env w = cycle_loop cfg env (subscriptions w) w"

text \<open>
  A run of the process: commands handled and cycles run, one after the other (a cycle with
  the commands handled inside it; two cycles do not overlap, a pass takes seconds and the
  timer fires every 12 hours).
\<close>

datatype event = Incoming update | Cycle "string \<Rightarrow> entry_env"

definition step :: "config \<Rightarrow> world \<Rightarrow> event \<Rightarrow> world" where
  "step cfg w ev =
     (case ev of
        Incoming u \<Rightarrow> handle cfg u w
      | Cycle env \<Rightarrow> snd (runSchedulerCycle cfg env w))"

definition run :: "config \<Rightarrow> event list \<Rightarrow> world \<Rightarrow> world" where
  "run cfg evs w = foldl (step cfg) w evs"

text \<open>The mapping in memory is on the disk: the file holds the text of the whole mapping.\<close>

definition persisted :: "world \<Rightarrow> bool" where
  "persisted w = (subs_file (disk w) = Some (Stringified (subscriptions w)))"

section \<open>Commands that concern a chat\<close>

text \<open>
  The updates that can change the record of chat \<open>k\<close>: an \<^verbatim>\<open>/add\<close> or a \<^verbatim>\<open>/rem\<close> for it. An
  entry is undisturbed for \<open>k\<close> when no such update is handled while the cycle works on it.
\<close>

fun touches :: "string \<Rightarrow> update \<Rightarrow> bool" where
  "touches k (Add msg link match2) = (chatIdToUse msg match2 = k)"
| "touches k (Rem msg chatId) = (chatId = k)"
| "touches k (Start msg) = False"
| "touches k (List msg) = False"

definition quiet_for :: "string \<Rightarrow> update list \<Rightarrow> bool" where
  "quiet_for k us = (filter (touches k) us = [])"

definition undisturbed :: "string \<Rightarrow> entry_env \<Rightarrow> bool" where
  "undisturbed k e =
     (quiet_for k (during_fetch e) \<and> quiet_for k (during_send e)
      \<and> quiet_for k (during_fallback e) \<and> quiet_for k (during_delay e))"

definition with_handle :: "store \<Rightarrow> store" where
  "with_handle entries = filter (\<lambda>kv. tiktokHandle (snd kv) \<noteq> []) entries"

section \<open>Example configurations and states\<close>

definition open_config :: config where
  "open_config = \<lparr>BOT_ADMIN_ID = None\<rparr>"

definition admin_config :: config where
  "admin_config = \<lparr>BOT_ADMIN_ID = Some ''42''\<rparr>"

definition admin_msg :: message where
  "admin_msg = \<lparr>from_id = 42, chat_id = 42\<rparr>"

definition stranger_msg :: message where
  "stranger_msg = \<lparr>from_id = 7, chat_id = 7\<rparr>"

definition old_store :: store where
  "old_store =
     [(''123'', \<lparr>tiktokHandle = ''@old'', lastSentAt = Some ''2024-01-01T00:00:00.000Z''\<rparr>)]"

text \<open>A process whose file holds the mapping it has in memory; the disk takes writes or not.\<close>

definition world_of :: "store \<Rightarrow> bool \<Rightarrow> world" where
  "world_of subs can_write =
     \<lparr>subscriptions = subs,
      disk = \<lparr>subs_file = Some (Stringified subs), writable = can_write, readable = True,
              write_calls = 0\<rparr>,
      outbox = [],
      requests = []\<rparr>"

definition two_store :: store where
  "two_store =
     [(''111'', \<lparr>tiktokHandle = ''@a'', lastSentAt = Some ''2024-01-01T00:00:00.000Z''\<rparr>),
      (''222'', \<lparr>tiktokHandle = ''@b'', lastSentAt = None\<rparr>)]"

definition small_analytics :: jsval where
  "small_analytics =
     JObj [(''profile_id'', JStr ''a''),
           (''profile_followers'', JObj [(''value'', JNum (Fin 10 0))])]"

definition small_report :: string where
  "small_report =
     chart_emoji @ '' <b>TikTok Report</b>'' @ nl
     @ bust_emoji @ '' Profile: <b>a</b> @a'' @ nl @ nl
     @ busts_emoji @ '' Followers: <b>10</b>'' @ nl
     @ fire_emoji @ '' Engagement rate: <b>0%</b>'' @ nl
     @ clapper_emoji @ '' Posts analyzed: <b>0</b>'' @ nl @ nl
     @ eye_emoji @ '' Total views: <b>0</b>'' @ nl
     @ trend_emoji @ '' Avg views/video: <b>0.0</b>'' @ nl
     @ heart_emoji @ '' Avg likes/video: <b>0.0</b>'' @ nl"

text \<open>The request fails, and so does the send of the fallback notice.\<close>

definition failing_env :: entry_env where
  "failing_env =
     \<lparr>fetch_result = Inl FetchError, during_fetch = [], send_ok = True, during_send = [],
      clock = ''2025-01-01T00:00:00.000Z'', fallback_ok = False, during_fallback = [],
      during_delay = []\<rparr>"

text \<open>Everything works and no command comes in.\<close>

definition working_env :: entry_env where
  "working_env =
     \<lparr>fetch_result = Inr small_analytics, during_fetch = [], send_ok = True, during_send = [],
      clock = ''2025-01-01T00:00:00.000Z'', fallback_ok = True, during_fallback = [],
      during_delay = []\<rparr>"

definition two_env :: "string \<Rightarrow> entry_env" where
  "two_env chatId = (if chatId = ''111'' then failing_env else working_env)"

text \<open>Everything works, and the administrator removes chat 111 while its report is sent.\<close>

definition removal_env :: entry_env where
  "removal_env = working_env\<lparr>during_send := [Rem admin_msg ''111'']\<rparr>"

definition one_store :: store where
  "one_store = [(''111'', \<lparr>tiktokHandle = ''@a'', lastSentAt = None\<rparr>)]"

section \<open>Properties of the escape\<close>

lemma replace_all_Nil: "replace_all c r [] = []"
  by (simp add: replace_all_def)

lemma replace_all_Cons:
  "replace_all c r (x # s) = (if x = c then r else [x]) @ replace_all c r s"
  by (simp add: replace_all_def)

lemma replace_all_append:
  "replace_all c r (s @ t) = replace_all c r s @ replace_all c r t"
  by (simp add: replace_all_def)

lemma three_passes_append:
  "replace_all c3 r3 (replace_all c2 r2 (replace_all c1 r1 (s @ t)))
   = replace_all c3 r3 (replace_all c2 r2 (replace_all c1 r1 s))
     @ replace_all c3 r3 (replace_all c2 r2 (replace_all c1 r1 t))"
  by (simp add: replace_all_append)

lemma three_passes_single:
  "replace_all (CHR ''>'') ''&gt;''
     (replace_all (CHR ''<'') ''&lt;'' (replace_all (CHR ''&'') ''&amp;'' [x]))
   = escape_once x"
  by (simp add: replace_all_Cons replace_all_Nil escape_once_def)

lemma three_passes_once: "escape_text s = concat (map escape_once s)"
  unfolding escape_text_def
proof (induction s)
  case Nil
  show ?case by (simp add: replace_all_Nil)
next
  case (Cons x s)
  have "replace_all (CHR ''>'') ''&gt;''
          (replace_all (CHR ''<'') ''&lt;'' (replace_all (CHR ''&'') ''&amp;'' ([x] @ s)))
        = escape_once x @ concat (map escape_once s)"
    by (simp only: three_passes_append three_passes_single Cons.IH)
  then show ?case by simp
qed

lemma escape_once_no_angle:
  "CHR ''<'' \<notin> set (escape_once c) \<and> CHR ''>'' \<notin> set (escape_once c)"
  by (simp add: escape_once_def)

lemma escapeHtml_string: "escapeHtml (JStr s) = Inr (escape_text s)"
  by (simp add: escapeHtml_def err_bind_def)

lemma collect_map:
  assumes "\<And>v. v \<in> set vs \<Longrightarrow>
             (Q v \<longrightarrow> (\<exists>s. f v = Inr s)) \<and> (\<not> Q v \<longrightarrow> f v = Inl TypeError)"
  shows "(list_all Q vs \<longrightarrow> (\<exists>ss. collect (map f vs) = Inr ss))
         \<and> (\<not> list_all Q vs \<longrightarrow> collect (map f vs) = Inl TypeError)"
  using assms
proof (induction vs)
  case Nil
  show ?case by simp
next
  case (Cons v vs)
  have rest: "(list_all Q vs \<longrightarrow> (\<exists>ss. collect (map f vs) = Inr ss))
              \<and> (\<not> list_all Q vs \<longrightarrow> collect (map f vs) = Inl TypeError)"
    by (rule Cons.IH) (simp add: Cons.prems)
  have first: "(Q v \<longrightarrow> (\<exists>s. f v = Inr s)) \<and> (\<not> Q v \<longrightarrow> f v = Inl TypeError)"
    by (rule Cons.prems) simp
  show ?case
    using rest first by (cases "Q v"; cases "list_all Q vs") (auto simp: err_bind_def)
qed

lemma js_String_has_text:
  "(has_text v \<longrightarrow> (\<exists>s. js_String v = Inr s)) \<and> (\<not> has_text v \<longrightarrow> js_String v = Inl TypeError)"
proof (induction v)
  case (JArr vs)
  have "(has_text v \<longrightarrow> (\<exists>s. (if v = JNull \<or> v = JUndefined then Inr [] else js_String v) = Inr s))
        \<and> (\<not> has_text v \<longrightarrow>
             (if v = JNull \<or> v = JUndefined then Inr [] else js_String v) = Inl TypeError)"
    if "v \<in> set vs" for v
    using JArr [OF that] by auto
  then have "(list_all has_text vs \<longrightarrow>
               (\<exists>ss. collect (map (\<lambda>v. if v = JNull \<or> v = JUndefined then Inr []
                                          else js_String v) vs) = Inr ss))
             \<and> (\<not> list_all has_text vs \<longrightarrow>
                  collect (map (\<lambda>v. if v = JNull \<or> v = JUndefined then Inr []
                                     else js_String v) vs) = Inl TypeError)"
    by (rule collect_map)
  then show ?case
    by (auto simp: err_bind_def)
qed simp_all

lemma escapeHtml_has_text:
  "(has_text v \<longrightarrow> escapeHtml v = Inr (escaped v)) \<and> (\<not> has_text v \<longrightarrow> escapeHtml v = Inl TypeError)"
proof (cases "v = JNull \<or> v = JUndefined")
  case True
  then show ?thesis
    by (auto simp: escapeHtml_def escaped_def)
next
  case False
  then show ?thesis
    using js_String_has_text [of v]
    by (cases "has_text v") (auto simp: escapeHtml_def escaped_def err_bind_def)
qed

lemma escapeHtml_returned:
  assumes "escapeHtml v = Inr s"
  shows "\<exists>t. s = concat (map escape_once t)"
proof (cases "v = JNull \<or> v = JUndefined")
  case True
  then have "s = concat (map escape_once [])"
    using assms by (auto simp: escapeHtml_def)
  then show ?thesis by blast
next
  case False
  then obtain t where "js_String v = Inr t" and "s = escape_text t"
    using assms by (auto simp: escapeHtml_def err_bind_def split: sum.splits)
  then show ?thesis
    by (auto simp: three_passes_once)
qed

text \<open>
  C3. The escape replaces the ampersand first and the two angle brackets after it, so each
  character of the text is escaped once: \<^verbatim>\<open><a & b>\<close> becomes \<^verbatim>\<open>&lt;a &amp; b&gt;\<close>, and for
  every string the three passes together translate each character by itself. \<^verbatim>\<open>null\<close> and
  an absent value (\<^verbatim>\<open>undefined\<close>) escape to the empty string.
\<close>

theorem escapeHtml_each_character_once:
  "escapeHtml (JStr ''<a & b>'') = Inr ''&lt;a &amp; b&gt;''
   \<and> escapeHtml (JStr s) = Inr (concat (map escape_once s))
   \<and> escapeHtml JNull = Inr []
   \<and> escapeHtml JUndefined = Inr []"
proof -
  have general: "escapeHtml (JStr t) = Inr (concat (map escape_once t))" for t
    by (simp add: escapeHtml_string three_passes_once)
  have "escapeHtml (JStr ''<a & b>'') = Inr ''&lt;a &amp; b&gt;''"
    by (simp add: general escape_once_def)
  moreover have "escapeHtml JNull = Inr []" "escapeHtml JUndefined = Inr []"
    by (simp_all add: escapeHtml_def)
  ultimately show ?thesis
    using general by simp
qed

text \<open>
  C10. Whatever value is passed to the escape, the string it returns has no \<^verbatim>\<open><\<close> and no
  \<^verbatim>\<open>>\<close> in it. It returns a string for every value that has a text; for the others
  \<^verbatim>\<open>String\<close> throws a \<^verbatim>\<open>TypeError\<close> and the escape returns nothing.
\<close>

theorem escapeHtml_no_angle_brackets:
  "(escapeHtml v = Inr s \<longrightarrow> CHR ''<'' \<notin> set s \<and> CHR ''>'' \<notin> set s)
   \<and> (has_text v \<longrightarrow> escapeHtml v = Inr (escaped v))
   \<and> (\<not> has_text v \<longrightarrow> escapeHtml v = Inl TypeError)"
proof -
  have "CHR ''<'' \<notin> set s \<and> CHR ''>'' \<notin> set s" if returned: "escapeHtml v = Inr s"
  proof -
    obtain t where "s = concat (map escape_once t)"
      using escapeHtml_returned [OF returned] by blast
    then show ?thesis
      using escape_once_no_angle by auto
  qed
  then show ?thesis
    using escapeHtml_has_text [of v] by blast
qed

theorem escapeHtml_no_angle_brackets_witness:
  "escapeHtml (JArr [JStr ''<b>'', JNull, JArr [JBool True, JStr ''a>b'']]) = Inr ''&lt;b&gt;,,true,a&gt;b''
   \<and> CHR ''<'' \<notin> set ''&lt;b&gt;,,true,a&gt;b'' \<and> CHR ''>'' \<notin> set ''&lt;b&gt;,,true,a&gt;b''
   \<and> escapeHtml (JArr [JStr ''<b>'', JObj [(''toString'', JStr ''x'')]]) = Inl TypeError"
proof -
  have returned: "escapeHtml (JArr [JStr ''<b>'', JNull, JArr [JBool True, JStr ''a>b'']])
                  = Inr ''&lt;b&gt;,,true,a&gt;b''"
    by (simp add: escapeHtml_def err_bind_def escape_text_def replace_all_def)
  have no_text: "\<not> has_text (JArr [JStr ''<b>'', JObj [(''toString'', JStr ''x'')]])"
    by simp
  show ?thesis
    using escapeHtml_no_angle_brackets
            [where v = "JArr [JStr ''<b>'', JNull, JArr [JBool True, JStr ''a>b'']]"
               and s = "''&lt;b&gt;,,true,a&gt;b''"]
          escapeHtml_no_angle_brackets
            [where v = "JArr [JStr ''<b>'', JObj [(''toString'', JStr ''x'')]]"]
          returned no_text
    by blast
qed

section \<open>Properties of the report\<close>

lemma replicate_numeral_unfold: "replicate (numeral v) x = x # replicate (numeral v - 1) x"
  by (simp add: numeral_eq_Suc)

lemmas num_eval = Number_toString_def Number_toFixed1_def digits.simps digit_char_def
  strip_zeros_def replicate_numeral_unfold Let_def

lemma number_text_examples:
  "Number_toString (Fin 100 0) = ''100'' \<and> Number_toString (Fin 25 (- 1)) = ''2.5''
   \<and> Number_toString (Fin (- 100123) 0) = ''-100123'' \<and> Number_toString (Fin 1 21) = ''1e+21''
   \<and> Number_toString (Fin 15 (- 8)) = ''1.5e-7''
   \<and> Number_toFixed1 (Fin 0 0) = ''0.0'' \<and> Number_toFixed1 (Fin 25 (- 2)) = ''0.3''
   \<and> Number_toFixed1 (Fin 35 (- 2)) = ''0.3'' \<and> Number_toFixed1 (Fin 12345678 (- 4)) = ''1234.6''"
  by (simp add: num_eval tenths_def nearest_double_def round_half_even_def floor_log2_def
      bit_length.simps)

lemmas js_eval = lookup_def get_prop_def opt_prop_def coalesce_def js_or_def err_bind_def
  toFixed_or_self_def nullish_def zero_def escapeHtml_def escape_text_def replace_all_def

lemmas emoji_eval = nl_def chart_emoji_def bust_emoji_def busts_emoji_def fire_emoji_def
  clapper_emoji_def eye_emoji_def trend_emoji_def heart_emoji_def trophy_emoji_def

lemma example_report:
  "formatReportMessage example_analytics =
     Inr (chart_emoji @ '' <b>TikTok Report</b>'' @ nl
          @ bust_emoji @ '' Profile: <b>foo</b> @foo'' @ nl @ nl
          @ busts_emoji @ '' Followers: <b>100</b>'' @ nl
          @ fire_emoji @ '' Engagement rate: <b>2.5%</b>'' @ nl
          @ clapper_emoji @ '' Posts analyzed: <b>5</b>'' @ nl @ nl
          @ eye_emoji @ '' Total views: <b>0</b>'' @ nl
          @ trend_emoji @ '' Avg views/video: <b>0.0</b>'' @ nl
          @ heart_emoji @ '' Avg likes/video: <b>0.0</b>'' @ nl)"
  by (simp add: formatReportMessage_def report_head_def example_analytics_def js_eval num_eval)

text \<open>
  C4, as the claim states it, fails: for the example input the report does not show the
  average views per video and the average likes per video as \<^verbatim>\<open>0\<close>. The text
  \<^verbatim>\<open>Avg views/video: <b>0</b>\<close> does not occur in the report, nor does
  \<^verbatim>\<open>Avg likes/video: <b>0</b>\<close>: the default \<^verbatim>\<open>0\<close> is a number, so it has \<^verbatim>\<open>toFixed\<close> and is
  printed with one decimal place, as \<^verbatim>\<open>0.0\<close>.
\<close>

theorem example_report_averages_not_plain_zero:
  "\<not> isl (formatReportMessage example_analytics)
   \<and> \<not> sublist ''Avg views/video: <b>0</b>'' (projr (formatReportMessage example_analytics))
   \<and> \<not> sublist ''Avg likes/video: <b>0</b>'' (projr (formatReportMessage example_analytics))
   \<and> sublist ''Avg views/video: <b>0.0</b>'' (projr (formatReportMessage example_analytics))
   \<and> sublist ''Avg likes/video: <b>0.0</b>'' (projr (formatReportMessage example_analytics))"
  by (simp add: example_report emoji_eval sublist_code)

text \<open>
  C4, amended. For the example input \<^verbatim>\<open>{profile_id:"foo", profile_followers:{value:100},
  engagement_rate:{float_2f:2.5}, posts:5}\<close> the report embeds \<^verbatim>\<open>foo\<close>, \<^verbatim>\<open>100\<close>, \<^verbatim>\<open>2.5%\<close> and
  \<^verbatim>\<open>5\<close>, shows the total views as the default \<^verbatim>\<open>0\<close>, and shows the average views per video
  and the average likes per video as \<^verbatim>\<open>0.0\<close>, the default 0 with one decimal place. The
  report is exactly the text below.
\<close>

theorem example_report_text:
  "formatReportMessage
     (JObj [(''profile_id'', JStr ''foo''),
            (''profile_followers'', JObj [(''value'', JNum (Fin 100 0))]),
            (''engagement_rate'', JObj [(''float_2f'', JNum (Fin 25 (- 1)))]),
            (''posts'', JNum (Fin 5 0))])
   = Inr (chart_emoji @ '' <b>TikTok Report</b>'' @ nl
          @ bust_emoji @ '' Profile: <b>foo</b> @foo'' @ nl @ nl
          @ busts_emoji @ '' Followers: <b>100</b>'' @ nl
          @ fire_emoji @ '' Engagement rate: <b>2.5%</b>'' @ nl
          @ clapper_emoji @ '' Posts analyzed: <b>5</b>'' @ nl @ nl
          @ eye_emoji @ '' Total views: <b>0</b>'' @ nl
          @ trend_emoji @ '' Avg views/video: <b>0.0</b>'' @ nl
          @ heart_emoji @ '' Avg likes/video: <b>0.0</b>'' @ nl)"
  using example_report by (simp add: example_analytics_def)

subsection \<open>The top videos\<close>

lemma get_prop_opt_prop: "\<not> nullish p \<Longrightarrow> get_prop p k = Inr (opt_prop p k)"
  by (cases p) (simp_all add: get_prop_def opt_prop_def nullish_def)

lemma get_prop_nullish: "nullish p \<Longrightarrow> get_prop p k = Inl TypeError"
  by (auto simp: get_prop_def nullish_def)

lemma video_entry_spec:
  "video_entry idx p = (if post_renders p then Inr (spec_video (Suc idx, p)) else Inl TypeError)"
proof (cases "nullish p")
  case True
  then show ?thesis
    by (auto simp: video_entry_def get_prop_nullish err_bind_def post_renders_def present_def
        nullish_def)
next
  case False
  have likes: "coalesce (coalesce (opt_prop p ''like_count'') (opt_prop p ''diggCount'')) zero
               = spec_like_count p"
    by (simp add: coalesce_def spec_like_count_def present_def nullish_def zero_def)
  have link: "js_or (js_or (js_or (opt_prop p ''si_permalink'') (opt_prop p ''permalink''))
                           (opt_prop p ''si_picture'')) (JStr [])
              = spec_link p"
    by (simp add: js_or_def spec_link_def)
  have entry: "video_entry idx p
        = err_bind (escapeHtml (spec_like_count p)) (\<lambda>likesEsc.
          err_bind (escapeHtml (spec_link p)) (\<lambda>linkEsc.
            Inr (digits (idx + 1) @ '') '' @ heart_emoji @ '' '' @ likesEsc @ '' likes'' @ nl
                 @ (if truthy (spec_link p) then linkEsc @ nl else []))))"
    unfolding video_entry_def
    by (simp only: get_prop_opt_prop [OF False] err_bind_def sum.case Let_def likes link)
  have present: "present p"
    using False by (simp add: present_def nullish_def)
  show ?thesis
    unfolding entry
    using escapeHtml_has_text [of "spec_like_count p"] escapeHtml_has_text [of "spec_link p"]
    by (cases "has_text (spec_like_count p)"; cases "has_text (spec_link p)")
       (simp_all add: err_bind_def post_renders_def present spec_video_def)
qed

lemma forEach_top_spec:
  "forEach_top idx ps msg
   = (if list_all post_renders ps
      then Inr (msg @ concat (map spec_video (enumerate (Suc idx) ps)))
      else Inl TypeError)"
proof (induction ps arbitrary: idx msg)
  case Nil
  show ?case by simp
next
  case (Cons p ps)
  show ?case
    by (simp add: video_entry_spec err_bind_def Cons.IH)
qed

text \<open>
  C5, as the claim states it, fails: \<^verbatim>\<open>top_posts\<close> can be a non-empty list and nothing be
  rendered. For the list \<^verbatim>\<open>[null]\<close> the callback reads \<^verbatim>\<open>p.like_count\<close> of \<^verbatim>\<open>null\<close> and the
  function throws a \<^verbatim>\<open>TypeError\<close>.
\<close>

theorem formatReportMessage_null_post:
  "formatReportMessage (JObj [(''profile_id'', JStr ''foo''), (''top_posts'', JArr [JNull])])
   = Inl TypeError"
  by (simp add: formatReportMessage_def report_head_def video_entry_def js_eval num_eval)

text \<open>
  C5, amended. Take an input whose \<^verbatim>\<open>top_posts\<close> is a non-empty list. When the head of the
  report renders and each of the first three posts can be rendered (it is a record, not
  \<^verbatim>\<open>null\<close>, and its like count and link have a text), the report is the head followed by the
  title of the section and the rendering of the first three posts only, numbered from 1 in
  the order of the input: for each post the like line with the first present of the two
  like fields, else 0, and after it a link line when one of the three link fields holds a
  link, with the first of them that does. When one of the first three posts cannot be
  rendered, or the head does not render, the function throws and there is no report. The
  posts after the third are never looked at.
\<close>

theorem formatReportMessage_top_videos:
  assumes "get_prop data ''top_posts'' = Inr (JArr posts)"
      and "posts \<noteq> []"
  shows "(report_head data = Inr head \<longrightarrow>
            formatReportMessage data
              = (if list_all post_renders (take 3 posts)
                 then Inr (head @ nl @ trophy_emoji @ '' <b>Top Videos</b>'' @ nl
                           @ spec_top_videos posts)
                 else Inl TypeError))
         \<and> (report_head data = Inl e \<longrightarrow> formatReportMessage data = Inl e)
         \<and> map fst (enumerate 1 (take 3 posts)) = [1..<Suc (min 3 (length posts))]"
proof -
  have rendered: "formatReportMessage data
          = (if list_all post_renders (take 3 posts)
             then Inr (head @ nl @ trophy_emoji @ '' <b>Top Videos</b>'' @ nl
                       @ spec_top_videos posts)
             else Inl TypeError)" if "report_head data = Inr head"
  proof -
    have "formatReportMessage data
            = forEach_top 0 (take 3 posts) (head @ nl @ trophy_emoji @ '' <b>Top Videos</b>'' @ nl)"
      using assms that by (simp add: formatReportMessage_def err_bind_def)
    then show ?thesis
      by (simp add: forEach_top_spec spec_top_videos_def)
  qed
  have thrown: "formatReportMessage data = Inl e" if "report_head data = Inl e"
    using that by (simp add: formatReportMessage_def err_bind_def)
  have "map fst (enumerate 1 (take 3 posts)) = [1..<Suc (min 3 (length posts))]"
    by (simp add: min.commute)
  then show ?thesis
    using rendered thrown by blast
qed

lemma five_posts_head_eq: "report_head five_posts_analytics = Inr five_posts_head"
  by (simp add: report_head_def five_posts_analytics_def five_posts_head_def js_eval num_eval)

lemma escaped_examples:
  "escaped (JNum (Fin 50 0)) = ''50'' \<and> escaped (JNum (Fin 40 0)) = ''40''
   \<and> escaped (JNum (Fin 0 0)) = ''0''
   \<and> escaped (JStr ''https://t.example/a?x=1&y=2'') = ''https://t.example/a?x=1&amp;y=2''
   \<and> escaped (JStr ''https://t.example/b'') = ''https://t.example/b''
   \<and> escaped (JStr ''https://t.example/c.jpg'') = ''https://t.example/c.jpg''"
  by (simp add: escaped_def js_eval num_eval)

lemma five_posts_rendered:
  "spec_top_videos five_posts =
     ''1) '' @ heart_emoji @ '' 50 likes'' @ nl @ ''https://t.example/a?x=1&amp;y=2'' @ nl
     @ ''2) '' @ heart_emoji @ '' 40 likes'' @ nl @ ''https://t.example/b'' @ nl
     @ ''3) '' @ heart_emoji @ '' 0 likes'' @ nl @ ''https://t.example/c.jpg'' @ nl"
  by (simp add: spec_top_videos_def five_posts_def enumerate_simps spec_video_def
      spec_like_count_def spec_link_def present_def opt_prop_def lookup_def escaped_examples
      digits.simps digit_char_def)

lemma odd_likes_head: "report_head odd_likes_analytics = Inr five_posts_head"
  by (simp add: report_head_def odd_likes_analytics_def five_posts_head_def js_eval num_eval)

theorem formatReportMessage_top_videos_witness:
  "formatReportMessage five_posts_analytics
     = Inr (five_posts_head @ nl @ trophy_emoji @ '' <b>Top Videos</b>'' @ nl
            @ ''1) '' @ heart_emoji @ '' 50 likes'' @ nl @ ''https://t.example/a?x=1&amp;y=2'' @ nl
            @ ''2) '' @ heart_emoji @ '' 40 likes'' @ nl @ ''https://t.example/b'' @ nl
            @ ''3) '' @ heart_emoji @ '' 0 likes'' @ nl @ ''https://t.example/c.jpg'' @ nl)
   \<and> length five_posts = 5
   \<and> formatReportMessage odd_likes_analytics = Inl TypeError"
proof -
  have top: "get_prop five_posts_analytics ''top_posts'' = Inr (JArr five_posts)"
    by (simp add: five_posts_analytics_def get_prop_def lookup_def)
  have nonempty: "five_posts \<noteq> []"
    by (simp add: five_posts_def)
  have records: "list_all post_renders (take 3 five_posts)"
    by (simp add: five_posts_def post_renders_def present_def spec_like_count_def spec_link_def
        opt_prop_def lookup_def)
  have odd_top: "get_prop odd_likes_analytics ''top_posts''
                 = Inr (JArr [JObj [(''like_count'', JObj [(''toString'', JNum (Fin 1 0))])]])"
    by (simp add: odd_likes_analytics_def get_prop_def lookup_def)
  have odd_post: "\<not> list_all post_renders
                      (take 3 [JObj [(''like_count'', JObj [(''toString'', JNum (Fin 1 0))])]])"
    by (simp add: post_renders_def present_def spec_like_count_def opt_prop_def lookup_def)
  have "formatReportMessage five_posts_analytics
          = Inr (five_posts_head @ nl @ trophy_emoji @ '' <b>Top Videos</b>'' @ nl
                 @ spec_top_videos five_posts)"
    using formatReportMessage_top_videos [OF top nonempty, where head = five_posts_head]
          five_posts_head_eq records
    by simp
  moreover have "formatReportMessage odd_likes_analytics = Inl TypeError"
    using formatReportMessage_top_videos [OF odd_top, where head = five_posts_head]
          odd_likes_head odd_post
    by simp
  ultimately show ?thesis
    by (simp add: five_posts_rendered) (simp add: five_posts_def)
qed

section \<open>Properties of the store\<close>

lemma map_of_replace_same:
  "map_of kvs k \<noteq> None \<Longrightarrow>
   map_of (map (\<lambda>kv. if fst kv = k then (k, v) else kv) kvs) k = Some v"
  by (induction kvs) auto

lemma map_of_replace_other:
  "k' \<noteq> k \<Longrightarrow>
   map_of (map (\<lambda>kv. if fst kv = k then (k, v) else kv) kvs) k' = map_of kvs k'"
  by (induction kvs) auto

lemma map_of_insert_same:
  assumes "map_of kvs k = None"
  shows "map_of (takeWhile P kvs @ [(k, v)] @ dropWhile P kvs) k = Some v"
proof -
  have "k \<notin> fst ` set kvs"
    using assms by (simp add: map_of_eq_None_iff)
  then have "k \<notin> fst ` set (takeWhile P kvs)"
    by (auto dest: set_takeWhileD)
  then have "map_of (takeWhile P kvs) k = None"
    by (simp add: map_of_eq_None_iff)
  then show ?thesis
    by (simp add: map_add_def)
qed

lemma map_of_insert_other:
  assumes "k' \<noteq> k"
  shows "map_of (takeWhile P kvs @ [(k, v)] @ dropWhile P kvs) k' = map_of kvs k'"
proof -
  have "map_of kvs k' = map_of (takeWhile P kvs @ dropWhile P kvs) k'"
    by simp
  also have "\<dots> = (map_of (dropWhile P kvs) ++ map_of (takeWhile P kvs)) k'"
    by (simp only: map_of_append)
  finally have right: "map_of kvs k' = (map_of (dropWhile P kvs) ++ map_of (takeWhile P kvs)) k'" .
  have "map_of (takeWhile P kvs @ [(k, v)] @ dropWhile P kvs) k'
        = (map_of ([(k, v)] @ dropWhile P kvs) ++ map_of (takeWhile P kvs)) k'"
    by (simp only: map_of_append)
  also have "\<dots> = (map_of (dropWhile P kvs) ++ map_of (takeWhile P kvs)) k'"
    using assms by (simp add: map_add_def split: option.split)
  finally show ?thesis
    using right by simp
qed

lemma map_of_set_prop_same: "map_of (set_prop k v kvs) k = Some v"
proof (cases "map_of kvs k")
  case None
  then show ?thesis
    using map_of_insert_same [OF None]
    by (simp add: set_prop_def map_add_def split: option.split)
next
  case (Some a)
  then show ?thesis
    by (simp add: set_prop_def map_of_replace_same)
qed

lemma map_of_set_prop_other:
  assumes "k' \<noteq> k"
  shows "map_of (set_prop k v kvs) k' = map_of kvs k'"
proof (cases "map_of kvs k")
  case (Some a)
  then show ?thesis
    using assms by (simp add: set_prop_def map_of_replace_other)
next
  case None
  show ?thesis
  proof (cases "array_index k")
    case (Some n)
    then show ?thesis
      using None map_of_insert_other [OF assms, where P = "index_below n" and v = v and kvs = kvs]
      by (simp add: set_prop_def)
  next
    case no_index: None
    then show ?thesis
      using None assms by (simp add: set_prop_def map_add_def split: option.split)
  qed
qed

lemma map_of_delete_prop:
  "map_of (delete_prop k kvs) k' = (if k' = k then None else map_of kvs k')"
  by (induction kvs) (auto simp: delete_prop_def)

section \<open>Properties of the command handlers\<close>

lemma saveSubscriptions_writable:
  "writable d \<Longrightarrow>
   saveSubscriptions subs d
     = d\<lparr>subs_file := Some (Stringified subs), write_calls := Suc (write_calls d)\<rparr>"
  by (simp add: saveSubscriptions_def writeFileSync_def)

lemma loadSubscriptions_stringified:
  "subs_file d = Some (Stringified subs) \<Longrightarrow> readable d \<Longrightarrow> fst (loadSubscriptions d) = subs"
  by (simp add: loadSubscriptions_def)

text \<open>
  C9. Without a configured administrator (\<^verbatim>\<open>BOT_ADMIN_ID\<close> unset or empty) every caller is
  the administrator. With one configured, \<^verbatim>\<open>/add\<close>, \<^verbatim>\<open>/rem\<close> and \<^verbatim>\<open>/list\<close> from any other sender change nothing at all: no
  reply is sent, the mapping and the file stay as they are. \<^verbatim>\<open>/start\<close> answers every sender
  with the help text, whatever the configuration.
\<close>

theorem admin_gate:
  "(BOT_ADMIN_ID cfg = None \<or> BOT_ADMIN_ID cfg = Some [] \<longrightarrow> isAdmin cfg msg)
   \<and> (BOT_ADMIN_ID cfg = Some admin \<and> admin \<noteq> [] \<and> int_String (from_id msg) \<noteq> admin \<longrightarrow>
        handle cfg (Add msg link match2) w = w
        \<and> handle cfg (Rem msg chatId) w = w
        \<and> handle cfg (List msg) w = w)
   \<and> handle cfg (Start msg) w
       = w\<lparr>outbox := outbox w @ [(ChatNum (chat_id msg), help_text, ParseHtml)]\<rparr>"
  by (auto simp: isAdmin_def on_add_def on_rem_def on_list_def on_start_def sendMessage_def)

lemma int_String_42: "int_String 42 = ''42''"
  by (simp add: int_String_def num_eval)

lemma int_String_7: "int_String 7 = ''7''"
  by (simp add: int_String_def num_eval)

theorem admin_gate_witness:
  "isAdmin open_config stranger_msg
   \<and> handle admin_config (Add stranger_msg ''@a'' None) (world_of old_store True)
       = world_of old_store True
   \<and> handle admin_config (Rem stranger_msg ''123'') (world_of old_store True)
       = world_of old_store True
   \<and> handle admin_config (List stranger_msg) (world_of old_store True)
       = world_of old_store True
   \<and> outbox (handle admin_config (Start stranger_msg) (world_of old_store True))
       = [(ChatNum 7, help_text, ParseHtml)]"
proof -
  have no_admin: "BOT_ADMIN_ID open_config = None"
    by (simp add: open_config_def)
  have other: "BOT_ADMIN_ID admin_config = Some ''42'' \<and> ''42'' \<noteq> []
               \<and> int_String (from_id stranger_msg) \<noteq> ''42''"
    by (simp add: admin_config_def stranger_msg_def int_String_7)
  show ?thesis
    using admin_gate [where cfg = open_config and msg = stranger_msg]
          admin_gate [where cfg = admin_config and msg = stranger_msg and admin = "''42''"
                       and link = "''@a''" and ?match2.0 = None and chatId = "''123''"
                       and w = "world_of old_store True"]
          no_admin other
    by (simp add: world_of_def stranger_msg_def)
qed

lemma reply_texts_differ: "not_found_text c \<noteq> removed_text c'"
  by (simp add: not_found_text_def removed_text_def question_emoji_def bin_emoji_def)

text \<open>
  C7. \<^verbatim>\<open>/rem\<close> (from the administrator) for a chat id that is not in the mapping answers
  ``not found'', a text that differs from every ``removed'' answer, which is what a chat id
  that is in the mapping gets. It leaves the mapping in memory as it is, and it leaves the
  disk as it is: the file holds what it held and \<^verbatim>\<open>writeFileSync\<close> has not been called.
\<close>

theorem rem_unknown_chat:
  assumes "isAdmin cfg msg"
      and "map_of (subscriptions w) chatId = None"
  shows "handle cfg (Rem msg chatId) w
           = w\<lparr>outbox := outbox w @ [(ChatNum (chat_id msg), not_found_text chatId, ParseHtml)]\<rparr>
         \<and> subscriptions (handle cfg (Rem msg chatId) w) = subscriptions w
         \<and> disk (handle cfg (Rem msg chatId) w) = disk w
         \<and> not_found_text chatId \<noteq> removed_text chatId'
         \<and> (map_of (subscriptions w) chatId' \<noteq> None \<longrightarrow>
              outbox (handle cfg (Rem msg chatId') w)
                = outbox w @ [(ChatNum (chat_id msg), removed_text chatId', ParseHtml)])"
  using assms
  by (simp add: on_rem_def sendMessage_def reply_texts_differ Let_def)

theorem rem_unknown_chat_witness:
  "handle admin_config (Rem admin_msg ''999'') (world_of old_store True)
     = (world_of old_store True)\<lparr>outbox := [(ChatNum 42, not_found_text ''999'', ParseHtml)]\<rparr>
   \<and> outbox (handle admin_config (Rem admin_msg ''123'') (world_of old_store True))
     = [(ChatNum 42, removed_text ''123'', ParseHtml)]"
proof -
  have admin: "isAdmin admin_config admin_msg"
    by (simp add: isAdmin_def admin_config_def admin_msg_def int_String_42)
  have absent: "map_of (subscriptions (world_of old_store True)) ''999'' = None"
    by (simp add: world_of_def old_store_def)
  have there: "map_of (subscriptions (world_of old_store True)) ''123'' \<noteq> None"
    by (simp add: world_of_def old_store_def)
  show ?thesis
    using rem_unknown_chat [OF admin absent, where chatId' = "''123''"] there
    by (simp add: world_of_def admin_msg_def)
qed

text \<open>
  C6, as the claim states it, fails: when the disk does not take the write,
  \<^verbatim>\<open>saveSubscriptions\<close> catches the error and the file keeps the old record, so after a restart
  \<^verbatim>\<open>loadSubscriptions\<close> returns the old handle and the old, non-null \<^verbatim>\<open>lastSentAt\<close>.
\<close>

theorem add_then_load_on_failed_write:
  "map_of (fst (loadSubscriptions
                 (disk (handle open_config (Add admin_msg ''@user'' (Some ''123''))
                          (world_of old_store False)))))
          ''123''
   = Some \<lparr>tiktokHandle = ''@old'', lastSentAt = Some ''2024-01-01T00:00:00.000Z''\<rparr>"
  by (simp add: on_add_def isAdmin_def open_config_def world_of_def old_store_def
      sendMessage_def saveSubscriptions_def writeFileSync_def loadSubscriptions_def Let_def)

text \<open>
  C6, amended. When the disk takes the write and the file can be read at the restart,
  \<^verbatim>\<open>/add\<close> (from the administrator) followed by \<^verbatim>\<open>loadSubscriptions\<close> returns a mapping whose
  record for the chat id has the given handle and \<^verbatim>\<open>lastSentAt\<close> null, whatever record the chat
  id had before; the mapping loaded is the mapping the process had in memory.
\<close>

theorem add_then_load:
  assumes "isAdmin cfg msg"
      and "writable (disk w)"
      and "readable (disk w)"
  shows "map_of (fst (loadSubscriptions (disk (handle cfg (Add msg link match2) w))))
                (chatIdToUse msg match2)
           = Some \<lparr>tiktokHandle = link, lastSentAt = None\<rparr>
         \<and> fst (loadSubscriptions (disk (handle cfg (Add msg link match2) w)))
           = subscriptions (handle cfg (Add msg link match2) w)"
  using assms
  by (simp add: on_add_def sendMessage_def Let_def saveSubscriptions_writable
      loadSubscriptions_def map_of_set_prop_same)

theorem add_then_load_witness:
  "map_of (fst (loadSubscriptions
                 (disk (handle admin_config (Add admin_msg ''@user'' (Some ''123''))
                          (world_of old_store True)))))
          ''123''
   = Some \<lparr>tiktokHandle = ''@user'', lastSentAt = None\<rparr>"
proof -
  have admin: "isAdmin admin_config admin_msg"
    by (simp add: isAdmin_def admin_config_def admin_msg_def int_String_42)
  have w: "writable (disk (world_of old_store True))"
    and r: "readable (disk (world_of old_store True))"
    by (simp_all add: world_of_def)
  show ?thesis
    using add_then_load [OF admin w r, where link = "''@user''" and ?match2.0 = "Some ''123''",
                         THEN conjunct1]
    by (simp add: chatIdToUse_def)
qed

section \<open>What the handlers leave alone\<close>

lemma handle_requests: "requests (handle cfg u w) = requests w"
  by (cases u) (simp_all add: on_start_def on_add_def on_rem_def on_list_def sendMessage_def Let_def)

lemma handle_outbox: "prefix (outbox w) (outbox (handle cfg u w))"
  by (cases u) (simp_all add: on_start_def on_add_def on_rem_def on_list_def sendMessage_def Let_def)

lemma handle_writable: "writable (disk (handle cfg u w)) = writable (disk w)"
  by (cases u)
     (simp_all add: on_start_def on_add_def on_rem_def on_list_def sendMessage_def Let_def
        saveSubscriptions_def writeFileSync_def)

lemma handle_untouched:
  "\<not> touches k u \<Longrightarrow> map_of (subscriptions (handle cfg u w)) k = map_of (subscriptions w) k"
  by (cases u)
     (simp_all add: on_start_def on_add_def on_rem_def on_list_def sendMessage_def Let_def
        map_of_set_prop_other map_of_delete_prop)

lemma deliver_Nil: "deliver cfg [] w = w"
  by (simp add: deliver_def)

lemma deliver_Cons: "deliver cfg (u # us) w = deliver cfg us (handle cfg u w)"
  by (simp add: deliver_def)

lemma deliver_requests: "requests (deliver cfg us w) = requests w"
  by (induction us arbitrary: w) (simp_all add: deliver_Nil deliver_Cons handle_requests)

lemma deliver_outbox: "prefix (outbox w) (outbox (deliver cfg us w))"
proof (induction us arbitrary: w)
  case Nil
  show ?case by (simp add: deliver_Nil)
next
  case (Cons u us)
  have "prefix (outbox w) (outbox (handle cfg u w))"
    by (rule handle_outbox)
  also have "prefix (outbox (handle cfg u w)) (outbox (deliver cfg us (handle cfg u w)))"
    by (rule Cons.IH)
  finally show ?case by (simp add: deliver_Cons)
qed

lemma deliver_writable: "writable (disk (deliver cfg us w)) = writable (disk w)"
  by (induction us arbitrary: w) (simp_all add: deliver_Nil deliver_Cons handle_writable)

lemma deliver_untouched:
  "quiet_for k us \<Longrightarrow> map_of (subscriptions (deliver cfg us w)) k = map_of (subscriptions w) k"
proof (induction us arbitrary: w)
  case Nil
  show ?case by (simp add: deliver_Nil)
next
  case (Cons u us)
  then have u: "\<not> touches k u" and us: "quiet_for k us"
    by (auto simp: quiet_for_def split: if_splits)
  show ?case
    by (simp add: deliver_Cons Cons.IH [OF us] handle_untouched [OF u])
qed

section \<open>One entry of the cycle\<close>

lemma deliver_outbox_mono: "prefix xs (outbox w) \<Longrightarrow> prefix xs (outbox (deliver cfg us w))"
  using deliver_outbox prefix_order.trans by blast

lemma sendMessage_outbox_mono: "prefix xs (outbox w) \<Longrightarrow> prefix xs (outbox (sendMessage c b opts w))"
  by (auto simp: sendMessage_def prefix_def)

lemma try_block_outbox_mono:
  "prefix xs (outbox w) \<Longrightarrow> prefix xs (outbox (snd (try_block cfg e chatId h w)))"
  by (auto simp: try_block_def fetchTikTokAnalytics_def await_sendMessage_def Let_def
      split: sum.splits option.splits
      intro!: deliver_outbox_mono sendMessage_outbox_mono)

lemma sendReportToChat_outbox_mono:
  "prefix xs (outbox w) \<Longrightarrow> prefix xs (outbox (snd (sendReportToChat cfg e chatId h w)))"
  by (auto simp: sendReportToChat_def await_sendMessage_def
      split: sum.splits prod.splits
      intro!: deliver_outbox_mono sendMessage_outbox_mono
      dest: try_block_outbox_mono [where cfg = cfg and e = e and chatId = chatId and h = h])

lemma sendReportToChat_returns: "fst (sendReportToChat cfg e chatId h w) = Inr ()"
  by (simp add: sendReportToChat_def split: prod.splits sum.splits)

lemma try_block_requests: "requests (snd (try_block cfg e chatId h w)) = requests w @ [h]"
  by (simp add: try_block_def fetchTikTokAnalytics_def await_sendMessage_def Let_def
      deliver_requests sendMessage_def
      split: sum.splits option.splits)

lemma sendReportToChat_requests:
  "requests (snd (sendReportToChat cfg e chatId h w)) = requests w @ [h]"
proof (cases "try_block cfg e chatId h w")
  case (Pair r w')
  then have "requests w' = requests w @ [h]"
    using try_block_requests [of cfg e chatId h w] by simp
  then show ?thesis
    using Pair
    by (simp add: sendReportToChat_def await_sendMessage_def deliver_requests sendMessage_def
        split: sum.splits)
qed

lemma try_block_fetch_failed:
  "fetch_result e = Inl err \<Longrightarrow>
   try_block cfg e chatId h w
     = (Inl err, deliver cfg (during_fetch e) (w\<lparr>requests := requests w @ [h]\<rparr>))"
  by (simp add: try_block_def fetchTikTokAnalytics_def)

lemma in_drop_of_prefix:
  "prefix (xs @ zs @ [x]) ys \<Longrightarrow> x \<in> set (drop (length xs) ys)"
  by (auto simp: prefix_def)

lemma sendReportToChat_fallback:
  assumes "fetch_result e = Inl err"
  shows "(ChatStr chatId, fallback_text, NoOptions)
           \<in> set (drop (length (outbox w)) (outbox (snd (sendReportToChat cfg e chatId h w))))"
proof -
  define w1 where "w1 = deliver cfg (during_fetch e) (w\<lparr>requests := requests w @ [h]\<rparr>)"
  have "prefix (outbox w) (outbox w1)"
    unfolding w1_def by (rule deliver_outbox_mono) simp
  then obtain zs where zs: "outbox w1 = outbox w @ zs"
    by (auto simp: prefix_def)
  have final: "snd (sendReportToChat cfg e chatId h w)
        = deliver cfg (during_fallback e)
            (sendMessage (ChatStr chatId) fallback_text NoOptions w1)"
    by (simp add: sendReportToChat_def try_block_fetch_failed [OF assms] await_sendMessage_def
        w1_def)
  have "prefix (outbox w @ zs @ [(ChatStr chatId, fallback_text, NoOptions)])
          (outbox (sendMessage (ChatStr chatId) fallback_text NoOptions w1))"
    by (simp add: sendMessage_def zs)
  then have "prefix (outbox w @ zs @ [(ChatStr chatId, fallback_text, NoOptions)])
          (outbox (snd (sendReportToChat cfg e chatId h w)))"
    unfolding final by (rule deliver_outbox_mono)
  then show ?thesis
    by (rule in_drop_of_prefix)
qed

lemma handle_core:
  assumes "subscriptions w = subscriptions w'"
      and "disk w = disk w'"
  shows "subscriptions (handle cfg u w) = subscriptions (handle cfg u w')
         \<and> disk (handle cfg u w) = disk (handle cfg u w')"
  using assms
  by (cases u)
     (simp_all add: on_start_def on_add_def on_rem_def on_list_def sendMessage_def Let_def)

lemma deliver_core:
  "subscriptions w = subscriptions w' \<Longrightarrow> disk w = disk w' \<Longrightarrow>
   subscriptions (deliver cfg us w) = subscriptions (deliver cfg us w')
   \<and> disk (deliver cfg us w) = disk (deliver cfg us w')"
proof (induction us arbitrary: w w')
  case Nil
  then show ?case by (simp add: deliver_Nil)
next
  case (Cons u us)
  have "subscriptions (handle cfg u w) = subscriptions (handle cfg u w')
        \<and> disk (handle cfg u w) = disk (handle cfg u w')"
    using Cons.prems by (rule handle_core)
  then show ?case
    using Cons.IH [of "handle cfg u w" "handle cfg u w'"] by (simp add: deliver_Cons)
qed

lemma deliver_append: "deliver cfg (us @ vs) w = deliver cfg vs (deliver cfg us w)"
  by (simp add: deliver_def)

lemma sendReportToChat_fetch_failed_core:
  assumes "fetch_result e = Inl err"
  shows "subscriptions (snd (sendReportToChat cfg e chatId h w))
           = subscriptions (deliver cfg (during_fetch e @ during_fallback e) w)
         \<and> disk (snd (sendReportToChat cfg e chatId h w))
           = disk (deliver cfg (during_fetch e @ during_fallback e) w)"
proof -
  define w1 where "w1 = deliver cfg (during_fetch e) (w\<lparr>requests := requests w @ [h]\<rparr>)"
  have final: "snd (sendReportToChat cfg e chatId h w)
        = deliver cfg (during_fallback e)
            (sendMessage (ChatStr chatId) fallback_text NoOptions w1)"
    by (simp add: sendReportToChat_def try_block_fetch_failed [OF assms] await_sendMessage_def
        w1_def)
  have "subscriptions w1 = subscriptions (deliver cfg (during_fetch e) w)
        \<and> disk w1 = disk (deliver cfg (during_fetch e) w)"
    unfolding w1_def by (rule deliver_core) simp_all
  then have "subscriptions (sendMessage (ChatStr chatId) fallback_text NoOptions w1)
               = subscriptions (deliver cfg (during_fetch e) w)"
        and "disk (sendMessage (ChatStr chatId) fallback_text NoOptions w1)
               = disk (deliver cfg (during_fetch e) w)"
    by (simp_all add: sendMessage_def)
  then show ?thesis
    unfolding final deliver_append by (rule deliver_core)
qed

lemma try_block_untouched:
  assumes "undisturbed k e"
      and "chatId \<noteq> k \<or> fetch_result e = Inl err"
  shows "map_of (subscriptions (snd (try_block cfg e chatId h w))) k = map_of (subscriptions w) k"
proof -
  have q: "quiet_for k (during_fetch e)" "quiet_for k (during_send e)"
    using assms(1) by (simp_all add: undisturbed_def)
  show ?thesis
    using assms(2)
    by (auto simp: try_block_def fetchTikTokAnalytics_def await_sendMessage_def Let_def
        deliver_untouched [OF q(1)] deliver_untouched [OF q(2)] sendMessage_def
        map_of_set_prop_other
        split: sum.splits option.splits)
qed

lemma sendReportToChat_untouched:
  assumes "undisturbed k e"
      and "chatId \<noteq> k \<or> fetch_result e = Inl err"
  shows "map_of (subscriptions (snd (sendReportToChat cfg e chatId h w))) k
         = map_of (subscriptions w) k"
proof (cases "try_block cfg e chatId h w")
  case (Pair r w')
  have q: "quiet_for k (during_fallback e)"
    using assms(1) by (simp add: undisturbed_def)
  have "map_of (subscriptions w') k = map_of (subscriptions w) k"
    using try_block_untouched [OF assms, of cfg h w] Pair by simp
  then show ?thesis
    using Pair
    by (simp add: sendReportToChat_def await_sendMessage_def deliver_untouched [OF q]
        sendMessage_def split: sum.splits)
qed

section \<open>The whole cycle\<close>

lemma cycle_loop_skip:
  "tiktokHandle info = [] \<Longrightarrow>
   cycle_loop cfg env ((chatId, info) # entries) w = cycle_loop cfg env entries w"
  by simp

lemma cycle_loop_step:
  assumes "tiktokHandle info \<noteq> []"
  shows "cycle_loop cfg env ((chatId, info) # entries) w
         = cycle_loop cfg env entries
             (deliver cfg (during_delay (env chatId))
                (snd (sendReportToChat cfg (env chatId) chatId (tiktokHandle info) w)))"
proof (cases "sendReportToChat cfg (env chatId) chatId (tiktokHandle info) w")
  case (Pair r w')
  then have "r = Inr ()"
    using sendReportToChat_returns [of cfg "env chatId" chatId "tiktokHandle info" w] by simp
  then show ?thesis
    using Pair assms by simp
qed

lemma cycle_loop_returns: "fst (cycle_loop cfg env entries w) = Inr ()"
proof (induction entries arbitrary: w)
  case Nil
  show ?case by simp
next
  case (Cons entry entries)
  obtain chatId info where entry: "entry = (chatId, info)"
    by (cases entry)
  show ?case
  proof (cases "tiktokHandle info = []")
    case True
    show ?thesis
      unfolding entry by (simp only: cycle_loop_skip [OF True] Cons.IH)
  next
    case False
    show ?thesis
      unfolding entry by (simp only: cycle_loop_step [OF False] Cons.IH)
  qed
qed

lemma cycle_loop_requests:
  "requests (snd (cycle_loop cfg env entries w))
   = requests w @ map (\<lambda>kv. tiktokHandle (snd kv)) (with_handle entries)"
proof (induction entries arbitrary: w)
  case Nil
  show ?case by (simp add: with_handle_def)
next
  case (Cons entry entries)
  obtain chatId info where entry: "entry = (chatId, info)"
    by (cases entry)
  show ?case
  proof (cases "tiktokHandle info = []")
    case True
    then show ?thesis
      unfolding entry by (simp add: Cons.IH with_handle_def)
  next
    case False
    then show ?thesis
      unfolding entry
      by (simp add: cycle_loop_step Cons.IH deliver_requests sendReportToChat_requests
          with_handle_def del: cycle_loop.simps)
  qed
qed

lemma cycle_loop_outbox_mono:
  "prefix xs (outbox w) \<Longrightarrow> prefix xs (outbox (snd (cycle_loop cfg env entries w)))"
proof (induction entries arbitrary: w)
  case Nil
  then show ?case by simp
next
  case (Cons entry entries)
  obtain chatId info where entry: "entry = (chatId, info)"
    by (cases entry)
  show ?case
  proof (cases "tiktokHandle info = []")
    case True
    show ?thesis
      unfolding entry cycle_loop_skip [OF True] by (rule Cons.IH [OF Cons.prems])
  next
    case False
    have "prefix xs (outbox (deliver cfg (during_delay (env chatId))
             (snd (sendReportToChat cfg (env chatId) chatId (tiktokHandle info) w))))"
      by (intro deliver_outbox_mono sendReportToChat_outbox_mono Cons.prems)
    then show ?thesis
      unfolding entry cycle_loop_step [OF False] by (rule Cons.IH)
  qed
qed

lemma drop_prefix_mono:
  "x \<in> set (drop n xs) \<Longrightarrow> prefix xs ys \<Longrightarrow> x \<in> set (drop n ys)"
  by (auto simp: prefix_def)

lemma drop_later:
  "x \<in> set (drop m ys) \<Longrightarrow> n \<le> m \<Longrightarrow> x \<in> set (drop n ys)"
  using set_drop_subset_set_drop [of n m ys] by auto

lemma cycle_loop_fallback:
  assumes "(k, info) \<in> set entries"
      and "tiktokHandle info \<noteq> []"
      and "fetch_result (env k) = Inl err"
  shows "(ChatStr k, fallback_text, NoOptions)
           \<in> set (drop (length (outbox w)) (outbox (snd (cycle_loop cfg env entries w))))"
  using assms(1)
proof (induction entries arbitrary: w)
  case Nil
  then show ?case by simp
next
  case (Cons entry entries)
  obtain chatId info' where entry: "entry = (chatId, info')"
    by (cases entry)
  show ?case
  proof (cases "tiktokHandle info' = []")
    case True
    then have "(k, info) \<in> set entries"
      using Cons.prems assms(2) entry by auto
    then show ?thesis
      unfolding entry cycle_loop_skip [OF True] by (rule Cons.IH)
  next
    case False
    define w1 where "w1 = snd (sendReportToChat cfg (env chatId) chatId (tiktokHandle info') w)"
    define w2 where "w2 = deliver cfg (during_delay (env chatId)) w1"
    have loop: "cycle_loop cfg env (entry # entries) w = cycle_loop cfg env entries w2"
      unfolding entry w2_def w1_def by (rule cycle_loop_step [OF False])
    have grow: "prefix (outbox w) (outbox w2)"
      unfolding w2_def w1_def
      by (intro deliver_outbox_mono sendReportToChat_outbox_mono) simp
    show ?thesis
    proof (cases "chatId = k")
      case True
      have "(ChatStr k, fallback_text, NoOptions) \<in> set (drop (length (outbox w)) (outbox w1))"
        unfolding w1_def True by (rule sendReportToChat_fallback [OF assms(3)])
      moreover have "prefix (outbox w1) (outbox (snd (cycle_loop cfg env entries w2)))"
        unfolding w2_def by (intro cycle_loop_outbox_mono deliver_outbox_mono) simp
      ultimately show ?thesis
        unfolding loop by (rule drop_prefix_mono)
    next
      case False
      then have "(k, info) \<in> set entries"
        using Cons.prems entry by auto
      then have "(ChatStr k, fallback_text, NoOptions)
                   \<in> set (drop (length (outbox w2)) (outbox (snd (cycle_loop cfg env entries w2))))"
        by (rule Cons.IH)
      moreover have "length (outbox w) \<le> length (outbox w2)"
        using grow by (rule prefix_length_le)
      ultimately show ?thesis
        unfolding loop by (rule drop_later)
    qed
  qed
qed

lemma cycle_loop_untouched:
  assumes "\<And>c. undisturbed k (env c)"
      and "fetch_result (env k) = Inl err"
  shows "map_of (subscriptions (snd (cycle_loop cfg env entries w))) k = map_of (subscriptions w) k"
proof (induction entries arbitrary: w)
  case Nil
  show ?case by simp
next
  case (Cons entry entries)
  obtain chatId info where entry: "entry = (chatId, info)"
    by (cases entry)
  show ?case
  proof (cases "tiktokHandle info = []")
    case True
    show ?thesis
      unfolding entry by (simp only: cycle_loop_skip [OF True] Cons.IH)
  next
    case False
    have q: "quiet_for k (during_delay (env chatId))"
      using assms(1) [of chatId] by (simp add: undisturbed_def)
    have "chatId \<noteq> k \<or> fetch_result (env chatId) = Inl err"
      using assms(2) by auto
    then have "map_of (subscriptions
                 (snd (sendReportToChat cfg (env chatId) chatId (tiktokHandle info) w))) k
               = map_of (subscriptions w) k"
      by (rule sendReportToChat_untouched [OF assms(1)])
    then show ?thesis
      unfolding entry
      by (simp only: cycle_loop_step [OF False] Cons.IH deliver_untouched [OF q])
  qed
qed

text \<open>
  C2. Take a store with an entry for chat \<open>k\<close> that has a handle, and a pass of the cycle in
  which the analytics request for \<open>k\<close> fails. The pass returns normally, whatever else fails
  (the send of the fallback notice included). During the pass the fallback notice is sent
  to \<open>k\<close>. Every entry that has a handle is requested, in the order of the entries, so the
  entries after \<open>k\<close> are processed. And the pass leaves the record of \<open>k\<close>, with its
  \<^verbatim>\<open>lastSentAt\<close>, as it was, as long as no command for chat \<open>k\<close> is handled while the pass
  waits. With commands coming in, in whatever state \<open>w'\<close> the pass reaches the entry, the
  work on the entry leaves the mapping and the file exactly as the commands handled in the
  meantime leave them: it changes neither by itself.
\<close>

theorem failed_fetch_is_contained:
  assumes "(k, info) \<in> set (subscriptions w)"
      and "tiktokHandle info \<noteq> []"
      and "fetch_result (env k) = Inl err"
  shows "fst (runSchedulerCycle cfg env w) = Inr ()
         \<and> (ChatStr k, fallback_text, NoOptions)
             \<in> set (drop (length (outbox w)) (outbox (snd (runSchedulerCycle cfg env w))))
         \<and> requests (snd (runSchedulerCycle cfg env w))
             = requests w @ map (\<lambda>kv. tiktokHandle (snd kv)) (with_handle (subscriptions w))
         \<and> ((\<forall>c. undisturbed k (env c)) \<longrightarrow>
              map_of (subscriptions (snd (runSchedulerCycle cfg env w))) k
                = map_of (subscriptions w) k)
         \<and> subscriptions (snd (sendReportToChat cfg (env k) k (tiktokHandle info) w'))
             = subscriptions (deliver cfg (during_fetch (env k) @ during_fallback (env k)) w')
         \<and> disk (snd (sendReportToChat cfg (env k) k (tiktokHandle info) w'))
             = disk (deliver cfg (during_fetch (env k) @ during_fallback (env k)) w')"
proof -
  note own = sendReportToChat_fetch_failed_core
               [OF assms(3), where cfg = cfg and chatId = k and h = "tiktokHandle info" and w = w']
  have returns: "fst (cycle_loop cfg env (subscriptions w) w) = Inr ()"
    by (rule cycle_loop_returns)
  have notice: "(ChatStr k, fallback_text, NoOptions)
      \<in> set (drop (length (outbox w)) (outbox (snd (cycle_loop cfg env (subscriptions w) w))))"
    by (rule cycle_loop_fallback [where env = env, OF assms])
  have all_requested: "requests (snd (cycle_loop cfg env (subscriptions w) w))
      = requests w @ map (\<lambda>kv. tiktokHandle (snd kv)) (with_handle (subscriptions w))"
    by (rule cycle_loop_requests)
  have unchanged: "map_of (subscriptions (snd (cycle_loop cfg env (subscriptions w) w))) k
      = map_of (subscriptions w) k" if "\<forall>c. undisturbed k (env c)"
  proof -
    have "undisturbed k (env c)" for c
      using that by simp
    then show ?thesis
      by (rule cycle_loop_untouched [where env = env, OF _ assms(3)])
  qed
  show ?thesis
    unfolding runSchedulerCycle_def
    using returns notice all_requested unchanged own by simp
qed

lemma small_report_eq: "formatReportMessage small_analytics = Inr small_report"
  by (simp add: formatReportMessage_def report_head_def small_analytics_def small_report_def
      js_eval num_eval)

theorem failed_fetch_is_contained_witness:
  "fst (runSchedulerCycle admin_config two_env (world_of two_store True)) = Inr ()
   \<and> (ChatStr ''111'', fallback_text, NoOptions)
       \<in> set (outbox (snd (runSchedulerCycle admin_config two_env (world_of two_store True))))
   \<and> requests (snd (runSchedulerCycle admin_config two_env (world_of two_store True)))
       = [''@a'', ''@b'']
   \<and> map_of (subscriptions (snd (runSchedulerCycle admin_config two_env (world_of two_store True))))
         ''111''
       = Some \<lparr>tiktokHandle = ''@a'', lastSentAt = Some ''2024-01-01T00:00:00.000Z''\<rparr>"
proof -
  have entry: "(''111'', \<lparr>tiktokHandle = ''@a'', lastSentAt = Some ''2024-01-01T00:00:00.000Z''\<rparr>)
                 \<in> set (subscriptions (world_of two_store True))"
    by (simp add: world_of_def two_store_def)
  have has_handle:
    "tiktokHandle \<lparr>tiktokHandle = ''@a'', lastSentAt = Some ''2024-01-01T00:00:00.000Z''\<rparr> \<noteq> []"
    by simp
  have fails: "fetch_result (two_env ''111'') = Inl FetchError"
    by (simp add: two_env_def failing_env_def)
  have calm: "\<forall>c. undisturbed ''111'' (two_env c)"
    by (simp add: undisturbed_def quiet_for_def two_env_def failing_env_def working_env_def)
  show ?thesis
    using failed_fetch_is_contained [where env = two_env and cfg = admin_config,
                                    OF entry has_handle fails] calm
    by (simp add: world_of_def two_store_def with_handle_def)
qed

lemma failed_and_working_cycle:
  "runSchedulerCycle admin_config two_env (world_of two_store True)
   = (Inr (),
      \<lparr>subscriptions =
         [(''111'', \<lparr>tiktokHandle = ''@a'', lastSentAt = Some ''2024-01-01T00:00:00.000Z''\<rparr>),
          (''222'', \<lparr>tiktokHandle = ''@b'', lastSentAt = Some ''2025-01-01T00:00:00.000Z''\<rparr>)],
       disk =
         \<lparr>subs_file = Some (Stringified
            [(''111'', \<lparr>tiktokHandle = ''@a'', lastSentAt = Some ''2024-01-01T00:00:00.000Z''\<rparr>),
             (''222'', \<lparr>tiktokHandle = ''@b'', lastSentAt = Some ''2025-01-01T00:00:00.000Z''\<rparr>)]),
          writable = True, readable = True, write_calls = 1\<rparr>,
       outbox = [(ChatStr ''111'', fallback_text, NoOptions),
                 (ChatStr ''222'', small_report, ParseHtmlPreview)],
       requests = [''@a'', ''@b'']\<rparr>)"
  by (simp add: runSchedulerCycle_def world_of_def two_store_def two_env_def failing_env_def
      working_env_def sendReportToChat_def try_block_def fetchTikTokAnalytics_def
      await_sendMessage_def deliver_Nil sendMessage_def small_report_eq set_prop_def
      saveSubscriptions_def writeFileSync_def Let_def)

text \<open>
  C1. The administrator removes chat 111 while the cycle waits for the report to chat 111
  to be sent. The send succeeds; the assignment to \<^verbatim>\<open>subscriptions[chatId].lastSentAt\<close> then
  throws a \<^verbatim>\<open>TypeError\<close>, the \<^verbatim>\<open>catch\<close> block takes it for a failed request, and the chat that
  has just received its report receives the fallback notice as well. The error does not
  leave the cycle.
\<close>

theorem removed_while_sending:
  "runSchedulerCycle admin_config (\<lambda>chatId. removal_env) (world_of one_store True)
   = (Inr (),
      \<lparr>subscriptions = [],
       disk = \<lparr>subs_file = Some (Stringified []), writable = True, readable = True,
               write_calls = 1\<rparr>,
       outbox = [(ChatStr ''111'', small_report, ParseHtmlPreview),
                 (ChatNum 42, removed_text ''111'', ParseHtml),
                 (ChatStr ''111'', fallback_text, NoOptions)],
       requests = [''@a'']\<rparr>)"
  by (simp add: runSchedulerCycle_def world_of_def one_store_def removal_env_def working_env_def
      sendReportToChat_def try_block_def fetchTikTokAnalytics_def await_sendMessage_def
      deliver_Nil deliver_Cons sendMessage_def small_report_eq on_rem_def isAdmin_def
      admin_config_def admin_msg_def int_String_42 delete_prop_def saveSubscriptions_def
      writeFileSync_def Let_def)

section \<open>The file follows the mapping\<close>

lemma saveSubscriptions_keeps_writable: "writable (saveSubscriptions subs d) = writable d"
  by (simp add: saveSubscriptions_def writeFileSync_def)

lemma add_persisted:
  "writable (disk w) \<Longrightarrow> isAdmin cfg msg \<Longrightarrow> persisted (handle cfg (Add msg link match2) w)"
  by (simp add: on_add_def sendMessage_def Let_def persisted_def saveSubscriptions_writable)

lemma rem_persisted:
  "writable (disk w) \<Longrightarrow> isAdmin cfg msg \<Longrightarrow> map_of (subscriptions w) chatId \<noteq> None \<Longrightarrow>
   persisted (handle cfg (Rem msg chatId) w)"
  by (simp add: on_rem_def sendMessage_def Let_def persisted_def saveSubscriptions_writable)

lemma handle_persisted:
  "writable (disk w) \<Longrightarrow> persisted w \<Longrightarrow> persisted (handle cfg u w)"
  by (cases u)
     (simp_all add: on_start_def on_add_def on_rem_def on_list_def sendMessage_def Let_def
        persisted_def saveSubscriptions_writable)

lemma deliver_persisted:
  "writable (disk w) \<Longrightarrow> persisted w \<Longrightarrow> persisted (deliver cfg us w)"
  by (induction us arbitrary: w)
     (simp_all add: deliver_Nil deliver_Cons handle_persisted handle_writable)

lemma try_block_writable: "writable (disk (snd (try_block cfg e chatId h w))) = writable (disk w)"
  by (simp add: try_block_def fetchTikTokAnalytics_def await_sendMessage_def Let_def
      deliver_writable sendMessage_def saveSubscriptions_keeps_writable
      split: sum.splits option.splits)

lemma try_block_done_persisted:
  assumes "writable (disk w)"
      and "fst (try_block cfg e chatId h w) = Inr ()"
  shows "persisted (snd (try_block cfg e chatId h w))"
  using assms
  by (auto simp: try_block_def fetchTikTokAnalytics_def await_sendMessage_def Let_def
      deliver_writable sendMessage_def persisted_def saveSubscriptions_writable
      split: sum.splits option.splits if_splits)

lemma add_sets:
  "isAdmin cfg msg \<Longrightarrow>
   map_of (subscriptions (handle cfg (Add msg link match2) w)) (chatIdToUse msg match2)
   = Some \<lparr>tiktokHandle = link, lastSentAt = None\<rparr>"
  by (simp add: on_add_def sendMessage_def Let_def map_of_set_prop_same)

lemma rem_deletes:
  "isAdmin cfg msg \<Longrightarrow> map_of (subscriptions w) chatId \<noteq> None \<Longrightarrow>
   map_of (subscriptions (handle cfg (Rem msg chatId) w)) chatId = None"
  by (simp add: on_rem_def sendMessage_def Let_def map_of_delete_prop)

lemma try_block_done_marks:
  assumes "fst (try_block cfg e chatId h w) = Inr ()"
  shows "map_option lastSentAt (map_of (subscriptions (snd (try_block cfg e chatId h w))) chatId)
         = Some (Some (clock e))"
  using assms
  by (auto simp: try_block_def fetchTikTokAnalytics_def await_sendMessage_def Let_def
      map_of_set_prop_same
      split: sum.splits option.splits if_splits)

lemma try_block_persisted:
  assumes "writable (disk w)"
      and "persisted w"
  shows "persisted (snd (try_block cfg e chatId h w))"
proof -
  define w0 where "w0 = w\<lparr>requests := requests w @ [h]\<rparr>"
  define w1 where "w1 = deliver cfg (during_fetch e) w0"
  have w0: "writable (disk w0)" "persisted w0"
    using assms by (simp_all add: w0_def persisted_def)
  then have w1: "writable (disk w1)" "persisted w1"
    by (simp_all add: w1_def deliver_writable deliver_persisted)
  have sent: "writable (disk (deliver cfg (during_send e) (sendMessage c b opts w1)))"
             "persisted (deliver cfg (during_send e) (sendMessage c b opts w1))" for c b opts
  proof -
    have "writable (disk (sendMessage c b opts w1))" "persisted (sendMessage c b opts w1)"
      using w1 by (simp_all add: sendMessage_def persisted_def)
    then show "writable (disk (deliver cfg (during_send e) (sendMessage c b opts w1)))"
          and "persisted (deliver cfg (during_send e) (sendMessage c b opts w1))"
      by (simp_all add: deliver_writable deliver_persisted)
  qed
  show ?thesis
    using w1 sent
    by (auto simp: try_block_def fetchTikTokAnalytics_def await_sendMessage_def Let_def
        w1_def [symmetric] w0_def [symmetric] persisted_def saveSubscriptions_writable
        split: sum.splits option.splits)
qed

lemma fallback_persisted:
  assumes "writable (disk w)"
      and "persisted w"
  shows "persisted (snd (await_sendMessage cfg ok during c b opts w))"
proof -
  have "writable (disk (sendMessage c b opts w))" "persisted (sendMessage c b opts w)"
    using assms by (simp_all add: sendMessage_def persisted_def)
  then show ?thesis
    by (simp add: await_sendMessage_def deliver_persisted)
qed

lemma await_sendMessage_writable:
  "writable (disk (snd (await_sendMessage cfg ok during c b opts w))) = writable (disk w)"
  by (simp add: await_sendMessage_def deliver_writable sendMessage_def)

lemma sendReportToChat_world:
  "snd (sendReportToChat cfg e chatId h w)
   = (if fst (try_block cfg e chatId h w) = Inr () then snd (try_block cfg e chatId h w)
      else snd (await_sendMessage cfg (fallback_ok e) (during_fallback e) (ChatStr chatId)
                  fallback_text NoOptions (snd (try_block cfg e chatId h w))))"
  by (simp add: sendReportToChat_def split: prod.splits sum.splits)

lemma sendReportToChat_writable:
  "writable (disk (snd (sendReportToChat cfg e chatId h w))) = writable (disk w)"
  by (simp add: sendReportToChat_world await_sendMessage_writable try_block_writable)

lemma sendReportToChat_persisted:
  "writable (disk w) \<Longrightarrow> persisted w \<Longrightarrow> persisted (snd (sendReportToChat cfg e chatId h w))"
  by (simp add: sendReportToChat_world fallback_persisted try_block_persisted try_block_writable)

lemma cycle_loop_sound:
  "writable (disk w) \<Longrightarrow> persisted w \<Longrightarrow>
   writable (disk (snd (cycle_loop cfg env entries w)))
   \<and> persisted (snd (cycle_loop cfg env entries w))"
proof (induction entries arbitrary: w)
  case Nil
  then show ?case by simp
next
  case (Cons entry entries)
  obtain chatId info where entry: "entry = (chatId, info)"
    by (cases entry)
  show ?case
  proof (cases "tiktokHandle info = []")
    case True
    show ?thesis
      unfolding entry cycle_loop_skip [OF True] by (rule Cons.IH [OF Cons.prems])
  next
    case False
    define w1 where "w1 = snd (sendReportToChat cfg (env chatId) chatId (tiktokHandle info) w)"
    have w1: "writable (disk w1)" "persisted w1"
      using Cons.prems by (simp_all add: w1_def sendReportToChat_writable sendReportToChat_persisted)
    then have "writable (disk (deliver cfg (during_delay (env chatId)) w1))"
          "persisted (deliver cfg (during_delay (env chatId)) w1)"
      by (simp_all add: deliver_writable deliver_persisted)
    then show ?thesis
      unfolding entry cycle_loop_step [OF False] w1_def by (rule Cons.IH)
  qed
qed

lemma step_sound:
  assumes "writable (disk w)"
      and "persisted w"
  shows "writable (disk (step cfg w ev)) \<and> persisted (step cfg w ev)"
proof (cases ev)
  case (Incoming u)
  then show ?thesis
    using assms by (simp add: step_def handle_writable handle_persisted)
next
  case (Cycle env)
  then show ?thesis
    using cycle_loop_sound [OF assms, of cfg env "subscriptions w"]
    by (simp add: step_def runSchedulerCycle_def)
qed

lemma run_sound:
  "writable (disk w) \<Longrightarrow> persisted w \<Longrightarrow>
   writable (disk (run cfg evs w)) \<and> persisted (run cfg evs w)"
proof (induction evs arbitrary: w)
  case Nil
  then show ?case by (simp add: run_def)
next
  case (Cons ev evs)
  have "writable (disk (step cfg w ev)) \<and> persisted (step cfg w ev)"
    using Cons.prems by (rule step_sound)
  then have "writable (disk (run cfg evs (step cfg w ev))) \<and> persisted (run cfg evs (step cfg w ev))"
    using Cons.IH by blast
  then show ?case by (simp add: run_def)
qed

text \<open>
  C8. Writes succeeding: after \<^verbatim>\<open>/add\<close> (the record is set), after \<^verbatim>\<open>/rem\<close> of a chat that is
  in the mapping (the record is gone), and after a delivery whose \<^verbatim>\<open>try\<close> block ran to its
  end (the report was sent and \<^verbatim>\<open>lastSentAt\<close> is the time of the send), the file holds the
  text of the whole mapping that is in memory when the operation returns. And once the file
  holds the mapping, it holds it after every run of commands and cycles, with commands
  handled in the middle of a cycle as well.
\<close>

theorem persist_after_every_mutation:
  assumes "writable (disk w)"
  shows "(isAdmin cfg msg \<longrightarrow>
            persisted (handle cfg (Add msg link match2) w)
            \<and> map_of (subscriptions (handle cfg (Add msg link match2) w)) (chatIdToUse msg match2)
                = Some \<lparr>tiktokHandle = link, lastSentAt = None\<rparr>)
         \<and> (isAdmin cfg msg \<and> map_of (subscriptions w) chatId \<noteq> None \<longrightarrow>
              persisted (handle cfg (Rem msg chatId) w)
              \<and> map_of (subscriptions (handle cfg (Rem msg chatId) w)) chatId = None)
         \<and> (fst (try_block cfg e chatId' h w) = Inr () \<longrightarrow>
              persisted (snd (sendReportToChat cfg e chatId' h w))
              \<and> map_option lastSentAt
                    (map_of (subscriptions (snd (sendReportToChat cfg e chatId' h w))) chatId')
                  = Some (Some (clock e)))
         \<and> (persisted w \<longrightarrow> persisted (run cfg evs w))"
proof -
  have after_add: "persisted (handle cfg (Add msg link match2) w)
      \<and> map_of (subscriptions (handle cfg (Add msg link match2) w)) (chatIdToUse msg match2)
          = Some \<lparr>tiktokHandle = link, lastSentAt = None\<rparr>" if "isAdmin cfg msg"
    using add_persisted [OF assms that] add_sets [OF that] by blast
  have after_rem: "persisted (handle cfg (Rem msg chatId) w)
      \<and> map_of (subscriptions (handle cfg (Rem msg chatId) w)) chatId = None"
    if "isAdmin cfg msg" "map_of (subscriptions w) chatId \<noteq> None"
    using rem_persisted [OF assms that] rem_deletes [OF that] by blast
  have after_send: "persisted (snd (sendReportToChat cfg e chatId' h w))
      \<and> map_option lastSentAt
            (map_of (subscriptions (snd (sendReportToChat cfg e chatId' h w))) chatId')
          = Some (Some (clock e))"
    if "fst (try_block cfg e chatId' h w) = Inr ()"
    using that try_block_done_persisted [OF assms that] try_block_done_marks [OF that]
    by (simp add: sendReportToChat_world)
  have always: "persisted (run cfg evs w)" if "persisted w"
    using run_sound [OF assms that] by simp
  show ?thesis
    using after_add after_rem after_send always by blast
qed

lemma working_try_block:
  "fst (try_block admin_config working_env ''111'' ''@a'' (world_of one_store True)) = Inr ()"
  by (simp add: try_block_def fetchTikTokAnalytics_def await_sendMessage_def working_env_def
      deliver_Nil sendMessage_def small_report_eq world_of_def one_store_def Let_def)

theorem persist_after_every_mutation_witness:
  "persisted (handle admin_config (Add admin_msg ''@b'' (Some ''222'')) (world_of one_store True))
   \<and> persisted (handle admin_config (Rem admin_msg ''111'') (world_of one_store True))
   \<and> persisted (snd (sendReportToChat admin_config working_env ''111'' ''@a''
                       (world_of one_store True)))
   \<and> persisted (run admin_config
                  [Incoming (Add admin_msg ''@b'' (Some ''222'')),
                   Cycle (\<lambda>chatId. working_env),
                   Incoming (Rem admin_msg ''111'')]
                  (world_of one_store True))"
proof -
  have w: "writable (disk (world_of one_store True))"
    by (simp add: world_of_def)
  have admin: "isAdmin admin_config admin_msg"
    by (simp add: isAdmin_def admin_config_def admin_msg_def int_String_42)
  have there: "map_of (subscriptions (world_of one_store True)) ''111'' \<noteq> None"
    by (simp add: world_of_def one_store_def)
  have start: "persisted (world_of one_store True)"
    by (simp add: persisted_def world_of_def)
  show ?thesis
    using persist_after_every_mutation
            [OF w, where cfg = admin_config and msg = admin_msg and link = "''@b''"
               and ?match2.0 = "Some ''222''" and chatId = "''111''" and e = working_env
               and chatId' = "''111''" and h = "''@a''"
               and evs = "[Incoming (Add admin_msg ''@b'' (Some ''222'')),
                           Cycle (\<lambda>chatId. working_env),
                           Incoming (Rem admin_msg ''111'')]"]
          admin there working_try_block start
    by blast
qed

lemma array_index_examples:
  "array_index ''50'' = Some 50 \<and> array_index ''0'' = Some 0 \<and> array_index ''-5'' = None
   \<and> array_index ''007'' = None \<and> array_index ''4294967294'' = Some 4294967294
   \<and> array_index ''4294967295'' = None"
  by (simp add: array_index_def is_digit_def decimal_value_def)

lemma property_order_example:
  "set_prop ''50'' c (set_prop ''-5'' b (set_prop ''111'' a []))
   = [(''50'', c), (''111'', a), (''-5'', b)]"
  by (simp add: set_prop_def array_index_def is_digit_def decimal_value_def index_below_def)

lemma commands_and_cycle_run:
  "run admin_config
     [Incoming (Add admin_msg ''@b'' (Some ''50'')),
      Cycle (\<lambda>chatId. working_env),
      Incoming (Rem admin_msg ''111'')]
     (world_of one_store True)
   = \<lparr>subscriptions =
        [(''50'', \<lparr>tiktokHandle = ''@b'', lastSentAt = Some ''2025-01-01T00:00:00.000Z''\<rparr>)],
      disk =
        \<lparr>subs_file = Some (Stringified
           [(''50'', \<lparr>tiktokHandle = ''@b'', lastSentAt = Some ''2025-01-01T00:00:00.000Z''\<rparr>)]),
         writable = True, readable = True, write_calls = 4\<rparr>,
      outbox = [(ChatNum 42, added_text ''50'' ''@b'', ParseHtml),
                (ChatStr ''50'', small_report, ParseHtmlPreview),
                (ChatStr ''111'', small_report, ParseHtmlPreview),
                (ChatNum 42, removed_text ''111'', ParseHtml)],
      requests = [''@b'', ''@a'']\<rparr>"
  by (simp add: run_def step_def runSchedulerCycle_def world_of_def one_store_def
      working_env_def sendReportToChat_def try_block_def fetchTikTokAnalytics_def
      await_sendMessage_def deliver_Nil sendMessage_def small_report_eq on_add_def on_rem_def
      isAdmin_def admin_config_def admin_msg_def int_String_42 chatIdToUse_def
      set_prop_def delete_prop_def array_index_def is_digit_def decimal_value_def
      index_below_def saveSubscriptions_def writeFileSync_def Let_def)

end
